theory Spec2Isabelle
  imports Complex_Main "HOL-Library.AList"
begin

section \<open>Interactive PDF mapper: orchestration core\<close>

text \<open>
  A shallow embedding of the orchestration layer of the interactive PDF mapper
  (\<^verbatim>\<open>src/core\<close>, \<^verbatim>\<open>src/validation\<close>, \<^verbatim>\<open>src/vision/glm_provider.py\<close>,
  \<^verbatim>\<open>src/workflow\<close>, \<^verbatim>\<open>src/cache\<close>).

  Conventions of the embedding:
  \<^item> a dataclass is a record, an \<^verbatim>\<open>Enum\<close> a datatype;
  \<^item> Python \<^verbatim>\<open>int\<close> is \<open>int\<close>; Python \<^verbatim>\<open>float\<close> is \<open>real\<close> (exact arithmetic:
    rounding and NaN are outside the model), with \<^verbatim>\<open>float('inf')\<close> a separate constructor
    where the source produces it;
  \<^item> every \<^verbatim>\<open>raise\<close> is an \<open>Inl\<close> of the type \<open>error\<close>; a \<^verbatim>\<open>try/except\<close> is a case
    distinction on the sum;
  \<^item> objects mutated in place are passed in and returned updated;
  \<^item> the external recognition service, the clock and the file system are explicit
    arguments.
\<close>

subsection \<open>Exceptions (\<^verbatim>\<open>core/exceptions.py\<close> and the Python built-ins that occur)\<close>

datatype pykey = KInt int | KStr string

text \<open>
  Where the source wraps an exception \<^verbatim>\<open>e\<close> as \<^verbatim>\<open>str(e)\<close> (the \<^verbatim>\<open>reason\<close> of a
  \<^verbatim>\<open>CheckpointError\<close>), the model keeps \<^verbatim>\<open>e\<close> itself.
\<close>

datatype error =
    PDFLoadError string string
  | VisionAPIError string int string
  | CheckpointError string string error
  | CacheError string string string
  | WorkflowStateError string string string
  | AttributeError string string
  | KeyError pykey
  | TypeError string
  | ValueError string
  | ZeroDivisionError
  | OSError string

text \<open>Sequencing of computations that may raise.\<close>

definition bind_err :: "error + 'a \<Rightarrow> ('a \<Rightarrow> error + 'b) \<Rightarrow> error + 'b" where
  "bind_err m f = (case m of Inl e \<Rightarrow> Inl e | Inr v \<Rightarrow> f v)"

subsection \<open>Core data types (\<^verbatim>\<open>core/types.py\<close>)\<close>

datatype FieldType = TEXT_INPUT | SIGNATURE | DATE | CHECKBOX

datatype ValidationStatus = PENDING | PASSED | SKIPPED

datatype DetectionSensitivity = NORMAL | HIGH | VERY_HIGH | MAXIMUM

text \<open>The enumerations' \<^verbatim>\<open>.value\<close> strings.\<close>

fun FieldType_value :: "FieldType \<Rightarrow> string" where
  "FieldType_value TEXT_INPUT = ''text-input''"
| "FieldType_value SIGNATURE = ''signature''"
| "FieldType_value DATE = ''date''"
| "FieldType_value CHECKBOX = ''checkbox''"

fun ValidationStatus_value :: "ValidationStatus \<Rightarrow> string" where
  "ValidationStatus_value PENDING = ''pending''"
| "ValidationStatus_value PASSED = ''passed''"
| "ValidationStatus_value SKIPPED = ''skipped''"

record Coordinates =
  coord_x :: real
  coord_y :: real
  coord_width :: real
  coord_height :: real

record CSSCoordinates =
  css_top :: string
  css_left :: string
  css_width :: string
  css_height :: string

record FieldHierarchy =
  hier_section :: string
  hier_subsection :: "string option"
  hier_entry :: "string option"
  hier_field_label :: "string option"

record UIHints =
  label_position :: string
  group_with :: "string list"

text \<open>
  A Python float that may be \<^verbatim>\<open>float('inf')\<close> (the difference reported for a field the
  service does not find).
\<close>

datatype pyfloat = Fin real | PosInf

text \<open>
  The dictionary \<^verbatim>\<open>validation_evidence\<close>, in the one shape the coordinator writes:
  \<^verbatim>\<open>{"attempt": .., "measured": {x, y, width, height}, "difference": ..}\<close>.
\<close>

record Evidence =
  ev_attempt :: int
  ev_measured :: Coordinates
  ev_difference :: pyfloat

record DetectedField =
  field_id :: string
  field_type :: FieldType
  coordinates :: Coordinates
  hierarchy :: FieldHierarchy
  page_number :: int
  confidence_score :: real
  validation_status :: ValidationStatus
  section_id :: string
  render_order :: int
  css_coordinates :: "CSSCoordinates option"
  ui_hints :: "UIHints option"
  retry_count :: int
  validation_evidence :: "Evidence option"

record PageInfo =
  pi_page_number :: int
  pi_width :: real
  pi_height :: real

record RetryParameters =
  confidence_threshold :: real
  detection_sensitivity :: "DetectionSensitivity option"
  zoom_level :: real
  contrast_enhancement :: bool
  edge_detection :: bool

subsection \<open>Tolerance checker (\<^verbatim>\<open>validation/tolerance.py\<close>)\<close>

text \<open>
  \<^verbatim>\<open>ToleranceChecker.check\<close>; the first argument is the object's \<^verbatim>\<open>_tolerance\<close>.
\<close>

definition check :: "real \<Rightarrow> Coordinates \<Rightarrow> Coordinates \<Rightarrow> bool \<times> real" where
  "check tolerance expected measured =
     (let diff_x = \<bar>coord_x expected - coord_x measured\<bar>;
          diff_y = \<bar>coord_y expected - coord_y measured\<bar>;
          diff_width = \<bar>coord_width expected - coord_width measured\<bar>;
          diff_height = \<bar>coord_height expected - coord_height measured\<bar>;
          max_diff = max diff_x (max diff_y (max diff_width diff_height));
          passed = (max_diff \<le> tolerance)
      in (passed, max_diff))"

subsection \<open>Configuration (\<^verbatim>\<open>core/config.py\<close>)\<close>

record GLMConfig =
  api_endpoint :: string
  max_concurrent_requests :: int

record ValidationConfig =
  tolerance :: real
  max_retries :: int
  vc_confidence_threshold :: real

record CacheConfig =
  cache_directory :: string
  cache_enabled :: bool

record DiscoveryConfig =
  glm :: GLMConfig
  validation :: ValidationConfig
  cache :: CacheConfig
  retry_parameters :: "int \<rightharpoonup> RetryParameters"

text \<open>\<^verbatim>\<open>DiscoveryConfig._default_retry_parameters\<close>: the seven-step escalation table.\<close>

definition default_retry_parameters :: "int \<rightharpoonup> RetryParameters" where
  "default_retry_parameters =
     [1 \<mapsto> \<lparr>confidence_threshold = 0.95, detection_sensitivity = Some NORMAL,
             zoom_level = 1.0, contrast_enhancement = False, edge_detection = False\<rparr>,
      2 \<mapsto> \<lparr>confidence_threshold = 0.90, detection_sensitivity = Some HIGH,
             zoom_level = 1.0, contrast_enhancement = False, edge_detection = False\<rparr>,
      3 \<mapsto> \<lparr>confidence_threshold = 0.85, detection_sensitivity = Some HIGH,
             zoom_level = 1.5, contrast_enhancement = False, edge_detection = False\<rparr>,
      4 \<mapsto> \<lparr>confidence_threshold = 0.80, detection_sensitivity = Some VERY_HIGH,
             zoom_level = 2.0, contrast_enhancement = False, edge_detection = False\<rparr>,
      5 \<mapsto> \<lparr>confidence_threshold = 0.75, detection_sensitivity = Some VERY_HIGH,
             zoom_level = 2.0, contrast_enhancement = True, edge_detection = False\<rparr>,
      6 \<mapsto> \<lparr>confidence_threshold = 0.70, detection_sensitivity = Some MAXIMUM,
             zoom_level = 2.5, contrast_enhancement = True, edge_detection = False\<rparr>,
      7 \<mapsto> \<lparr>confidence_threshold = 0.65, detection_sensitivity = Some MAXIMUM,
             zoom_level = 3.0, contrast_enhancement = True, edge_detection = True\<rparr>]"

text \<open>The defaults of the dataclasses (tolerance 0.5, seven retries, cache enabled).\<close>

definition default_config :: DiscoveryConfig where
  "default_config =
     \<lparr>glm = \<lparr>api_endpoint = ''https://api.z.ai/api/anthropic'', max_concurrent_requests = 1\<rparr>,
      validation = \<lparr>tolerance = 0.5, max_retries = 7, vc_confidence_threshold = 0.85\<rparr>,
      cache = \<lparr>cache_directory = ''data/golden-maps'', cache_enabled = True\<rparr>,
      retry_parameters = default_retry_parameters\<rparr>"

subsection \<open>Retry engine (\<^verbatim>\<open>validation/retry_engine.py\<close>)\<close>

text \<open>The attributes \<^verbatim>\<open>_max_attempts\<close>, \<^verbatim>\<open>_parameters\<close> and \<^verbatim>\<open>_retry_pool\<close>.\<close>

record RetryEngine =
  eng_max_attempts :: int
  eng_parameters :: "int \<rightharpoonup> RetryParameters"
  eng_retry_pool :: "DetectedField list"

definition get_parameters_for_attempt :: "RetryEngine \<Rightarrow> int \<Rightarrow> RetryParameters" where
  "get_parameters_for_attempt eng attempt =
     (case eng_parameters eng attempt of
        Some p \<Rightarrow> p
      | None \<Rightarrow>
          (case eng_parameters eng (eng_max_attempts eng) of
             Some p \<Rightarrow> p
           | None \<Rightarrow> \<lparr>confidence_threshold = 0.65, detection_sensitivity = None,
                       zoom_level = 1.0, contrast_enhancement = False,
                       edge_detection = False\<rparr>))"

definition should_retry :: "RetryEngine \<Rightarrow> DetectedField \<Rightarrow> bool" where
  "should_retry eng field =
     (validation_status field \<noteq> PASSED \<and> retry_count field < eng_max_attempts eng)"

text \<open>
  \<^verbatim>\<open>add_to_retry_pool\<close> sets the status on the field object and appends that object to the
  pool; the updated field is returned with the engine.
\<close>

definition add_to_retry_pool :: "RetryEngine \<Rightarrow> DetectedField \<Rightarrow> DetectedField \<times> RetryEngine" where
  "add_to_retry_pool eng field =
     (let field' = field\<lparr>validation_status := SKIPPED\<rparr>
      in (field', eng\<lparr>eng_retry_pool := eng_retry_pool eng @ [field']\<rparr>))"

definition get_retry_pool_count :: "RetryEngine \<Rightarrow> int" where
  "get_retry_pool_count eng = int (length (eng_retry_pool eng))"

subsection \<open>Recognition service and GLM provider (\<^verbatim>\<open>vision/glm_provider.py\<close>)\<close>

text \<open>
  The outcome of one HTTP exchange with the service: a response with its status code, its
  text and its parsed content, a timeout (\<^verbatim>\<open>httpx.TimeoutException\<close>), or another
  transport error (\<^verbatim>\<open>httpx.RequestError\<close>).
\<close>

datatype 'r http_outcome =
    HttpResponse int string 'r
  | HttpTimeout
  | HttpRequestError string

text \<open>\<^verbatim>\<open>GLMVisionProvider._call_api\<close>, given the endpoint and the outcome of the exchange.\<close>

definition call_api :: "string \<Rightarrow> 'r http_outcome \<Rightarrow> error + 'r" where
  "call_api endpoint outcome =
     (case outcome of
        HttpResponse status_code text content \<Rightarrow>
          (if status_code \<noteq> 200 then Inl (VisionAPIError endpoint status_code text)
           else Inr content)
      | HttpTimeout \<Rightarrow> Inl (VisionAPIError endpoint 408 ''Request timed out'')
      | HttpRequestError msg \<Rightarrow> Inl (VisionAPIError endpoint 0 msg))"

text \<open>
  The content of a validation response is taken as \<^verbatim>\<open>_parse_validation_response\<close> reads it:
  \<^verbatim>\<open>(exists, measured, confidence)\<close>. The service is a function of an explicit world
  state, so that repeated calls may answer differently; it sees the page image, the field
  and the attempt's parameters (which determine the prompt).
\<close>

type_synonym measurement = "bool \<times> Coordinates \<times> real"

type_synonym 'w service =
  "'w \<Rightarrow> string \<Rightarrow> DetectedField \<Rightarrow> RetryParameters \<Rightarrow> measurement http_outcome \<times> 'w"

text \<open>The interface \<^verbatim>\<open>VisionProvider.validate_coordinates\<close> (\<^verbatim>\<open>vision/base.py\<close>).\<close>

type_synonym 'w provider =
  "'w \<Rightarrow> string \<Rightarrow> DetectedField \<Rightarrow> RetryParameters
     \<Rightarrow> (error + bool \<times> Coordinates \<times> pyfloat) \<times> 'w"

text \<open>\<^verbatim>\<open>GLMVisionProvider.validate_coordinates\<close>.\<close>

definition validate_coordinates :: "GLMConfig \<Rightarrow> 'w service \<Rightarrow> 'w provider" where
  "validate_coordinates config service w image_data field parameters =
     (case service w image_data field parameters of
        (outcome, w') \<Rightarrow>
          (case call_api (api_endpoint config @ ''/v1/messages'') outcome of
             Inl e \<Rightarrow> (Inl e, w')
           | Inr (exists, measured, confidence) \<Rightarrow>
               if \<not> exists then (Inr (False, measured, PosInf), w')
               else
                 let diff_x = \<bar>coord_x (coordinates field) - coord_x measured\<bar>;
                     diff_y = \<bar>coord_y (coordinates field) - coord_y measured\<bar>;
                     diff_w = \<bar>coord_width (coordinates field) - coord_width measured\<bar>;
                     diff_h = \<bar>coord_height (coordinates field) - coord_height measured\<bar>;
                     max_difference = max diff_x (max diff_y (max diff_w diff_h))
                 in (Inr (max_difference \<le> 0.5, measured, Fin max_difference), w')))"

subsection \<open>Validation coordinator (\<^verbatim>\<open>validation/coordinator.py\<close>)\<close>

record ValidationProgress =
  vp_total_fields :: int
  vp_validated :: int
  vp_passed :: int
  vp_failed :: int
  vp_skipped :: int
  vp_current_accuracy :: real

record ValidationSummary =
  vs_total_fields :: int
  vs_passed :: int
  vs_skipped :: int
  vs_accuracy :: real
  vs_retry_pool_count :: int
  vs_max_retries_used :: int

record FieldValidationResult =
  fvr_field :: DetectedField
  fvr_passed :: bool

record 'w ValidationCoordinator =
  coord_provider :: "'w provider"
  tolerance_checker :: real
  retry_engine :: RetryEngine

text \<open>\<^verbatim>\<open>ValidationCoordinator.__init__\<close>.\<close>

definition ValidationCoordinator_init ::
  "'w provider \<Rightarrow> DiscoveryConfig \<Rightarrow> 'w ValidationCoordinator" where
  "ValidationCoordinator_init provider config =
     \<lparr>coord_provider = provider,
      tolerance_checker = tolerance (validation config),
      retry_engine = \<lparr>eng_max_attempts = max_retries (validation config),
                        eng_parameters = retry_parameters config,
                        eng_retry_pool = []\<rparr>\<rparr>"

text \<open>
  \<^verbatim>\<open>_validate_field_with_retry\<close>. The field object is mutated in place: the second
  component of the result is the field as the call leaves it, also when the call raises.
\<close>

function validate_field_with_retry ::
  "'w ValidationCoordinator \<Rightarrow> 'w \<Rightarrow> string \<Rightarrow> DetectedField
     \<Rightarrow> (error + FieldValidationResult) \<times> DetectedField \<times> 'w" where
  "validate_field_with_retry c w image_data field =
     (if should_retry (retry_engine c) field then
        (let attempt_num = retry_count field + 1;
             parameters = get_parameters_for_attempt (retry_engine c) attempt_num
         in case coord_provider c w image_data field parameters of
              (Inl e, w') \<Rightarrow> (Inl e, field, w')
            | (Inr (passed, measured, difference), w') \<Rightarrow>
                (let field1 = field\<lparr>retry_count := attempt_num,
                                     validation_evidence :=
                                       Some \<lparr>ev_attempt = attempt_num, ev_measured = measured,
                                             ev_difference = difference\<rparr>\<rparr>
                 in if passed then
                      (let field2 = field1\<lparr>validation_status := PASSED\<rparr>
                       in (Inr \<lparr>fvr_field = field2, fvr_passed = True\<rparr>, field2, w'))
                    else validate_field_with_retry c w' image_data field1))
      else
        (let field' = (if validation_status field \<noteq> PASSED
                       then field\<lparr>validation_status := SKIPPED\<rparr> else field)
         in (Inr \<lparr>fvr_field = field', fvr_passed = False\<rparr>, field', w)))"
  by pat_completeness auto
termination
  by (relation "measure (\<lambda>(c, w, image_data, field).
        nat (eng_max_attempts (retry_engine c) - retry_count field))")
     (auto simp: should_retry_def)

text \<open>
  The optional progress callback of \<^verbatim>\<open>validate_all_fields\<close>: caller code, which acts on
  the world and may raise.
\<close>

type_synonym 'w progress_callback = "ValidationProgress \<Rightarrow> 'w \<Rightarrow> error option \<times> 'w"

text \<open>
  The local variables of \<^verbatim>\<open>validate_all_fields\<close> together with the coordinator object
  (whose retry engine collects the pool).
\<close>

record 'w validation_loop =
  validated_acc :: "DetectedField list"
  passed_count :: int
  skipped_count :: int
  max_retries_used :: int
  coordinator :: "'w ValidationCoordinator"

text \<open>
  Lines 141--148 of the loop body: append the result's field, update the maximum and the
  counters, and pool a skipped field. \<^verbatim>\<open>add_to_retry_pool\<close> writes to the object that
  was just appended, so the appended element is the field as the pool leaves it.
\<close>

definition account_result :: "'w validation_loop \<Rightarrow> FieldValidationResult \<Rightarrow> 'w validation_loop" where
  "account_result st result =
     (let st1 = st\<lparr>max_retries_used :=
                     max (max_retries_used st) (retry_count (fvr_field result))\<rparr>
      in if validation_status (fvr_field result) = PASSED then
           st1\<lparr>validated_acc := validated_acc st1 @ [fvr_field result],
               passed_count := passed_count st1 + 1\<rparr>
         else if validation_status (fvr_field result) = SKIPPED then
           (case add_to_retry_pool (retry_engine (coordinator st1)) (fvr_field result) of
              (pooled, eng') \<Rightarrow>
                st1\<lparr>validated_acc := validated_acc st1 @ [pooled],
                    skipped_count := skipped_count st1 + 1,
                    coordinator := (coordinator st1)\<lparr>retry_engine := eng'\<rparr>\<rparr>)
         else st1\<lparr>validated_acc := validated_acc st1 @ [fvr_field result]\<rparr>)"

text \<open>
  Lines 150--160: \<^verbatim>\<open>if progress_callback and (idx + 1) % batch_size == 0\<close>, then build
  the progress record and call the callback.
\<close>

definition emit_progress ::
  "'w progress_callback option \<Rightarrow> int \<Rightarrow> int \<Rightarrow> int \<Rightarrow> 'w validation_loop \<Rightarrow> 'w
     \<Rightarrow> error option \<times> 'w" where
  "emit_progress progress_callback batch_size n_fields idx st w =
     (case progress_callback of
        None \<Rightarrow> (None, w)
      | Some callback \<Rightarrow>
          if batch_size = 0 then (Some ZeroDivisionError, w)
          else if (idx + 1) mod batch_size = 0 then
            (let accuracy = (if idx > 0
                             then real_of_int (passed_count st) / real_of_int (idx + 1) * 100
                             else 0);
                 progress = \<lparr>vp_total_fields = n_fields,
                             vp_validated = idx + 1,
                             vp_passed = passed_count st,
                             vp_failed = idx + 1 - passed_count st - skipped_count st,
                             vp_skipped = skipped_count st,
                             vp_current_accuracy = accuracy\<rparr>
             in callback progress w)
          else (None, w))"

text \<open>
  The loop \<^verbatim>\<open>for idx, field in enumerate(fields)\<close>. The result is the exception raised
  (if any), the loop state, the input field objects as the loop leaves them (they are
  mutated in place, and \<^verbatim>\<open>validated_fields\<close> holds the same objects), and the world.
\<close>

fun validate_all_loop ::
  "(int \<rightharpoonup> string) \<Rightarrow> 'w progress_callback option \<Rightarrow> int \<Rightarrow> int \<Rightarrow> int
     \<Rightarrow> 'w validation_loop \<Rightarrow> 'w \<Rightarrow> DetectedField list
     \<Rightarrow> error option \<times> 'w validation_loop \<times> DetectedField list \<times> 'w" where
  "validate_all_loop page_images progress_callback batch_size n_fields idx st w [] =
     (None, st, validated_acc st, w)"
| "validate_all_loop page_images progress_callback batch_size n_fields idx st w (field # rest) =
     (case page_images (page_number field) of
        None \<Rightarrow> (Some (KeyError (KInt (page_number field))), st, validated_acc st @ field # rest, w)
      | Some image_data \<Rightarrow>
          (case validate_field_with_retry (coordinator st) w image_data field of
             (Inl e, field', w') \<Rightarrow> (Some e, st, validated_acc st @ field' # rest, w')
           | (Inr result, field', w') \<Rightarrow>
               (let st2 = account_result st result
                in case emit_progress progress_callback batch_size n_fields idx st2 w' of
                     (Some e, w'') \<Rightarrow> (Some e, st2, validated_acc st2 @ rest, w'')
                   | (None, w'') \<Rightarrow>
                       validate_all_loop page_images progress_callback batch_size n_fields
                         (idx + 1) st2 w'' rest)))"

text \<open>
  \<^verbatim>\<open>validate_all_fields\<close>. Returns the outcome (the exception, or the pair of the validated
  list and the summary), the input field objects as the call leaves them, the coordinator
  as the call leaves it, and the world.
\<close>

definition validate_all_fields ::
  "'w ValidationCoordinator \<Rightarrow> 'w \<Rightarrow> DetectedField list \<Rightarrow> (int \<rightharpoonup> string)
     \<Rightarrow> 'w progress_callback option \<Rightarrow> int
     \<Rightarrow> (error + DetectedField list \<times> ValidationSummary) \<times> DetectedField list
         \<times> 'w ValidationCoordinator \<times> 'w" where
  "validate_all_fields c w field_list page_images progress_callback batch_size =
     (case validate_all_loop page_images progress_callback batch_size (int (length field_list)) 0
             \<lparr>validated_acc = [], passed_count = 0, skipped_count = 0, max_retries_used = 0,
              coordinator = c\<rparr> w field_list of
        (Some e, st, heap, w') \<Rightarrow> (Inl e, heap, coordinator st, w')
      | (None, st, heap, w') \<Rightarrow>
          (let accuracy = (if field_list \<noteq> []
                           then real_of_int (passed_count st) / real_of_int (int (length field_list)) * 100
                           else 0);
               summary = \<lparr>vs_total_fields = int (length field_list),
                          vs_passed = passed_count st,
                          vs_skipped = skipped_count st,
                          vs_accuracy = accuracy,
                          vs_retry_pool_count = get_retry_pool_count (retry_engine (coordinator st)),
                          vs_max_retries_used = max_retries_used st\<rparr>
           in (Inr (validated_acc st, summary), heap, coordinator st, w')))"

subsection \<open>JSON values and files\<close>

text \<open>
  What \<^verbatim>\<open>json.load\<close> returns and \<^verbatim>\<open>json.dump\<close> accepts. An object is the list of its
  items in order, with distinct keys. Writing a value with \<^verbatim>\<open>json.dump\<close> and reading
  the file back with \<^verbatim>\<open>json.load\<close> gives the same value, so a file is modelled by the
  value it holds.
\<close>

datatype json =
    JNull
  | JBool bool
  | JInt int
  | JFloat real
  | JStr string
  | JArr "json list"
  | JObj "(string \<times> json) list"

text \<open>
  What is found at a path that is not simply absent: a path whose status cannot be
  determined (\<^verbatim>\<open>Path.exists()\<close> raises \<^verbatim>\<open>OSError\<close>, as it does for a path in a directory
  that may not be searched), a file that cannot be opened, a file whose text
  \<^verbatim>\<open>json.load\<close> rejects, or a file that holds a JSON value. An absent path (\<^verbatim>\<open>exists()\<close>
  returns \<^verbatim>\<open>False\<close>) is \<open>None\<close> in the maps below.
\<close>

datatype disk_file = Inaccessible | Unreadable | NotJson | Json json

text \<open>\<^verbatim>\<open>d[k]\<close> for a string key: \<^verbatim>\<open>KeyError\<close> on a dict without the key.\<close>

definition subscript :: "json \<Rightarrow> string \<Rightarrow> error + json" where
  "subscript d k =
     (case d of
        JObj items \<Rightarrow> (case map_of items k of Some v \<Rightarrow> Inr v | None \<Rightarrow> Inl (KeyError (KStr k)))
      | _ \<Rightarrow> Inl (TypeError ''value cannot be indexed by a string''))"

text \<open>\<^verbatim>\<open>d.get(k, default)\<close>: only a dict has the method.\<close>

definition dict_get :: "json \<Rightarrow> string \<Rightarrow> json \<Rightarrow> error + json" where
  "dict_get d k dflt =
     (case d of
        JObj items \<Rightarrow> Inr (case map_of items k of Some v \<Rightarrow> v | None \<Rightarrow> dflt)
      | JNull \<Rightarrow> Inl (AttributeError ''NoneType'' ''get'')
      | JBool b \<Rightarrow> Inl (AttributeError ''bool'' ''get'')
      | JInt i \<Rightarrow> Inl (AttributeError ''int'' ''get'')
      | JFloat r \<Rightarrow> Inl (AttributeError ''float'' ''get'')
      | JStr t \<Rightarrow> Inl (AttributeError ''str'' ''get'')
      | JArr xs \<Rightarrow> Inl (AttributeError ''list'' ''get''))"

text \<open>Truth value of a JSON value (\<^verbatim>\<open>if x:\<close>).\<close>

fun truthy :: "json \<Rightarrow> bool" where
  "truthy JNull = False"
| "truthy (JBool b) = b"
| "truthy (JInt i) = (i \<noteq> 0)"
| "truthy (JFloat r) = (r \<noteq> 0)"
| "truthy (JStr t) = (t \<noteq> [])"
| "truthy (JArr xs) = (xs \<noteq> [])"
| "truthy (JObj items) = (items \<noteq> [])"

text \<open>
  \<^verbatim>\<open>for x in v\<close>: the elements of a list, the keys of a dict, the characters of a
  string; other values are not iterable.
\<close>

fun py_iter :: "json \<Rightarrow> error + json list" where
  "py_iter (JArr xs) = Inr xs"
| "py_iter (JObj items) = Inr (map (\<lambda>kv. JStr (fst kv)) items)"
| "py_iter (JStr t) = Inr (map (\<lambda>ch. JStr [ch]) t)"
| "py_iter JNull = Inl (TypeError ''NoneType object is not iterable'')"
| "py_iter (JBool b) = Inl (TypeError ''bool object is not iterable'')"
| "py_iter (JInt i) = Inl (TypeError ''int object is not iterable'')"
| "py_iter (JFloat r) = Inl (TypeError ''float object is not iterable'')"

text \<open>A list comprehension \<^verbatim>\<open>[f(x) for x in xs]\<close> whose body may raise.\<close>

fun map_err :: "('a \<Rightarrow> error + 'b) \<Rightarrow> 'a list \<Rightarrow> error + 'b list" where
  "map_err f [] = Inr []"
| "map_err f (x # xs) =
     (case f x of
        Inl e \<Rightarrow> Inl e
      | Inr y \<Rightarrow> (case map_err f xs of Inl e \<Rightarrow> Inl e | Inr ys \<Rightarrow> Inr (y # ys)))"

text \<open>
  The records of the model are typed as the dataclasses are annotated. Python does not
  check the annotations: a checkpoint or index file with, say, a number where the writer
  puts a string would load into an ill-typed object. The writers of this program never
  produce such a file; the model reports it as a \<^verbatim>\<open>TypeError\<close>.
\<close>

definition as_str :: "json \<Rightarrow> error + string" where
  "as_str v = (case v of JStr t \<Rightarrow> Inr t | _ \<Rightarrow> Inl (TypeError ''expected a string''))"

definition as_opt_str :: "json \<Rightarrow> error + string option" where
  "as_opt_str v =
     (case v of JNull \<Rightarrow> Inr None | JStr t \<Rightarrow> Inr (Some t)
      | _ \<Rightarrow> Inl (TypeError ''expected a string or null''))"

definition as_int :: "json \<Rightarrow> error + int" where
  "as_int v = (case v of JInt i \<Rightarrow> Inr i | _ \<Rightarrow> Inl (TypeError ''expected an integer''))"

definition as_float :: "json \<Rightarrow> error + real" where
  "as_float v =
     (case v of JFloat r \<Rightarrow> Inr r | JInt i \<Rightarrow> Inr (real_of_int i)
      | _ \<Rightarrow> Inl (TypeError ''expected a number''))"

definition opt_str_json :: "string option \<Rightarrow> json" where
  "opt_str_json v = (case v of None \<Rightarrow> JNull | Some t \<Rightarrow> JStr t)"

subsection \<open>Workflow state and state manager (\<^verbatim>\<open>workflow/state.py\<close>)\<close>

datatype WorkflowPhase =
  INIT | LOADING | DETECTION | VALIDATION | ORGANIZATION | OUTPUT | COMPLETE | ERROR

fun WorkflowPhase_value :: "WorkflowPhase \<Rightarrow> string" where
  "WorkflowPhase_value INIT = ''init''"
| "WorkflowPhase_value LOADING = ''loading''"
| "WorkflowPhase_value DETECTION = ''detection''"
| "WorkflowPhase_value VALIDATION = ''validation''"
| "WorkflowPhase_value ORGANIZATION = ''organization''"
| "WorkflowPhase_value OUTPUT = ''output''"
| "WorkflowPhase_value COMPLETE = ''complete''"
| "WorkflowPhase_value ERROR = ''error''"

text \<open>
  A \<^verbatim>\<open>datetime\<close> is represented by its ISO-8601 text, so \<^verbatim>\<open>isoformat\<close> is the selector.
  \<^verbatim>\<open>datetime.fromisoformat\<close> rejects some strings with \<^verbatim>\<open>ValueError\<close>; which ones is a
  fact about the library, passed in as the predicate \<open>iso_ok\<close>.
\<close>

datatype datetime = DateTime (isoformat: string)

definition fromisoformat :: "(string \<Rightarrow> bool) \<Rightarrow> json \<Rightarrow> error + datetime" where
  "fromisoformat iso_ok v =
     (case v of
        JStr t \<Rightarrow> if iso_ok t then Inr (DateTime t) else Inl (ValueError ''Invalid isoformat string'')
      | _ \<Rightarrow> Inl (TypeError ''fromisoformat: argument must be str''))"

record PhaseProgress =
  pp_phase :: WorkflowPhase
  pp_started_at :: "datetime option"
  pp_completed_at :: "datetime option"
  pp_progress_percent :: real
  pp_items_total :: int
  pp_items_completed :: int
  pp_error_message :: "string option"

record WorkflowState =
  workflow_id :: string
  document_path :: string
  document_hash :: string
  current_phase :: WorkflowPhase
  phase_history :: "PhaseProgress list"
  pages :: "PageInfo list"
  detected_fields :: "DetectedField list"
  validated_fields :: "DetectedField list"
  retry_pool :: "DetectedField list"
  output_paths :: "(string \<times> string) list"
  started_at :: datetime
  updated_at :: datetime
  ws_error :: "string option"

text \<open>The attributes \<^verbatim>\<open>_state\<close> and \<^verbatim>\<open>_current_progress\<close>.\<close>

record StateManager =
  sm_state :: WorkflowState
  current_progress :: "PhaseProgress option"

text \<open>\<^verbatim>\<open>datetime.now()\<close> reads the clock of the world.\<close>

type_synonym 'w clock = "'w \<Rightarrow> datetime \<times> 'w"

definition StateManager_init :: "'w clock \<Rightarrow> string \<Rightarrow> string \<Rightarrow> 'w \<Rightarrow> StateManager \<times> 'w" where
  "StateManager_init now wid path w =
     (case now w of (t1, w1) \<Rightarrow>
      case now w1 of (t2, w2) \<Rightarrow>
        (\<lparr>sm_state = \<lparr>workflow_id = wid, document_path = path, document_hash = [],
                       current_phase = INIT, phase_history = [], pages = [],
                       detected_fields = [], validated_fields = [], retry_pool = [],
                       output_paths = [], started_at = t1, updated_at = t2, ws_error = None\<rparr>,
          current_progress = None\<rparr>, w2))"

definition start_phase ::
  "'w clock \<Rightarrow> StateManager \<Rightarrow> WorkflowPhase \<Rightarrow> int \<Rightarrow> 'w \<Rightarrow> StateManager \<times> 'w" where
  "start_phase now sm phase total_items w =
     (case (case current_progress sm of
              None \<Rightarrow> (sm, w)
            | Some cp \<Rightarrow>
                (case now w of (t, w0) \<Rightarrow>
                   (sm\<lparr>sm_state := (sm_state sm)\<lparr>phase_history :=
                         phase_history (sm_state sm) @ [cp\<lparr>pp_completed_at := Some t\<rparr>]\<rparr>\<rparr>, w0)))
      of (sm1, w1) \<Rightarrow>
        case now w1 of (t2, w2) \<Rightarrow>
        case now w2 of (t3, w3) \<Rightarrow>
          (sm1\<lparr>current_progress :=
                  Some \<lparr>pp_phase = phase, pp_started_at = Some t2, pp_completed_at = None,
                        pp_progress_percent = 0, pp_items_total = total_items,
                        pp_items_completed = 0, pp_error_message = None\<rparr>,
               sm_state := (sm_state sm1)\<lparr>current_phase := phase, updated_at := t3\<rparr>\<rparr>, w3))"

definition complete_phase :: "'w clock \<Rightarrow> StateManager \<Rightarrow> 'w \<Rightarrow> StateManager \<times> 'w" where
  "complete_phase now sm w =
     (case current_progress sm of
        None \<Rightarrow> (sm, w)
      | Some cp \<Rightarrow>
          (case now w of (t1, w1) \<Rightarrow>
           case now w1 of (t2, w2) \<Rightarrow>
             (sm\<lparr>sm_state := (sm_state sm)\<lparr>phase_history :=
                     phase_history (sm_state sm)
                       @ [cp\<lparr>pp_completed_at := Some t1, pp_progress_percent := 100\<rparr>],
                     updated_at := t2\<rparr>,
                 current_progress := None\<rparr>, w2)))"

definition set_error :: "'w clock \<Rightarrow> StateManager \<Rightarrow> string \<Rightarrow> 'w \<Rightarrow> StateManager \<times> 'w" where
  "set_error now sm error_message w =
     (let sm0 = sm\<lparr>sm_state := (sm_state sm)\<lparr>ws_error := Some error_message,
                                               current_phase := ERROR\<rparr>\<rparr>
      in case (case current_progress sm0 of
                 None \<Rightarrow> (sm0, w)
               | Some cp \<Rightarrow>
                   (case now w of (t, w0) \<Rightarrow>
                      (sm0\<lparr>sm_state := (sm_state sm0)\<lparr>phase_history :=
                              phase_history (sm_state sm0)
                                @ [cp\<lparr>pp_error_message := Some error_message,
                                      pp_completed_at := Some t\<rparr>]\<rparr>,
                           current_progress := None\<rparr>, w0)))
         of (sm1, w1) \<Rightarrow>
           case now w1 of (t2, w2) \<Rightarrow>
             (sm1\<lparr>sm_state := (sm_state sm1)\<lparr>updated_at := t2\<rparr>\<rparr>, w2))"

definition set_validated_fields ::
  "'w clock \<Rightarrow> StateManager \<Rightarrow> DetectedField list \<Rightarrow> DetectedField list \<Rightarrow> 'w
     \<Rightarrow> StateManager \<times> 'w" where
  "set_validated_fields now sm validated pool w =
     (case now w of (t, w1) \<Rightarrow>
        (sm\<lparr>sm_state := (sm_state sm)\<lparr>validated_fields := validated, retry_pool := pool,
                                           updated_at := t\<rparr>\<rparr>, w1))"

subsection \<open>The validation phase of the workflow (\<^verbatim>\<open>workflow/discovery.py\<close>)\<close>

text \<open>
  The collaborators of the orchestrator: the clock, the optional progress callback (its
  message text is not modelled), page rendering by \<^verbatim>\<open>PDFLoader\<close> and \<^verbatim>\<open>PDFRenderer\<close>
  (the images of all pages in order, or the exception raised), the recognition service,
  and the content hash of a document as \<^verbatim>\<open>PDFLoader\<close> with
  \<^verbatim>\<open>PDFMetadataExtractor.extract\<close> computes it (or the exception raised).
\<close>

record 'w environment =
  env_clock :: "'w clock"
  env_progress :: "('w \<Rightarrow> WorkflowPhase \<Rightarrow> real \<Rightarrow> 'w) option"
  env_render :: "'w \<Rightarrow> string \<Rightarrow> (error + string list) \<times> 'w"
  env_service :: "'w service"
  env_md5 :: "'w \<Rightarrow> string \<Rightarrow> (error + string) \<times> 'w"

definition report_progress :: "'w environment \<Rightarrow> WorkflowPhase \<Rightarrow> real \<Rightarrow> 'w \<Rightarrow> 'w" where
  "report_progress env phase percent w =
     (case env_progress env of None \<Rightarrow> w | Some callback \<Rightarrow> callback w phase percent)"

text \<open>\<^verbatim>\<open>page_images[page_num + 1] = image_data\<close> for \<^verbatim>\<open>page_num\<close> in \<^verbatim>\<open>range(len(doc))\<close>.\<close>

definition page_image_dict :: "string list \<Rightarrow> (int \<rightharpoonup> string)" where
  "page_image_dict images =
     (\<lambda>n. if 1 \<le> n \<and> n \<le> int (length images) then Some (images ! nat (n - 1)) else None)"

text \<open>
  \<^verbatim>\<open>ValidationStatus.NAME\<close>: attribute access on the enumeration class, which has exactly
  the members \<^verbatim>\<open>PENDING\<close>, \<^verbatim>\<open>PASSED\<close> and \<^verbatim>\<open>SKIPPED\<close>.
\<close>

definition ValidationStatus_member :: "string \<Rightarrow> error + ValidationStatus" where
  "ValidationStatus_member name =
     (if name = ''PENDING'' then Inr PENDING
      else if name = ''PASSED'' then Inr PASSED
      else if name = ''SKIPPED'' then Inr SKIPPED
      else Inl (AttributeError ''ValidationStatus'' name))"

text \<open>
  \<^verbatim>\<open>[f for f in fs if f.validation_status in (ValidationStatus.A, ValidationStatus.B, ..)]\<close>
  (with one name, the comparison \<^verbatim>\<open>==\<close>): the member names are looked up afresh for every
  element, so an unknown name raises at the first element and not on an empty list.
\<close>

fun filter_status :: "string list \<Rightarrow> DetectedField list \<Rightarrow> error + DetectedField list" where
  "filter_status names [] = Inr []"
| "filter_status names (f # fs) =
     (case map_err ValidationStatus_member names of
        Inl e \<Rightarrow> Inl e
      | Inr members \<Rightarrow>
          (case filter_status names fs of
             Inl e \<Rightarrow> Inl e
           | Inr rest \<Rightarrow> Inr (if validation_status f \<in> set members then f # rest else rest)))"

text \<open>
  \<^verbatim>\<open>DiscoveryWorkflow._phase_validation\<close>: the exception raised (if any), the state manager
  and the world as the call leaves them. The detected fields are mutated in place by the
  coordinator.
\<close>

definition phase_validation ::
  "'w environment \<Rightarrow> DiscoveryConfig \<Rightarrow> StateManager \<Rightarrow> 'w \<Rightarrow> error option \<times> StateManager \<times> 'w" where
  "phase_validation env config sm w =
     (let field_count = int (length (detected_fields (sm_state sm)))
      in case start_phase (env_clock env) sm VALIDATION field_count w of (sm1, w1) \<Rightarrow>
         (let w2 = report_progress env VALIDATION 0 w1;
              provider = validate_coordinates (glm config) (env_service env);
              c = ValidationCoordinator_init provider config
          in case env_render env w2 (document_path (sm_state sm1)) of
               (Inl e, w3) \<Rightarrow> (Some e, sm1, w3)
             | (Inr images, w3) \<Rightarrow>
                 (case validate_all_fields c w3 (detected_fields (sm_state sm1))
                         (page_image_dict images) None 10 of
                    (outcome, heap, c', w4) \<Rightarrow>
                      (let sm2 = sm1\<lparr>sm_state := (sm_state sm1)\<lparr>detected_fields := heap\<rparr>\<rparr>
                       in case outcome of
                            Inl e \<Rightarrow> (Some e, sm2, w4)
                          | Inr summary \<Rightarrow>
                              (case filter_status [''VALIDATED''] (detected_fields (sm_state sm2)) of
                                 Inl e \<Rightarrow> (Some e, sm2, w4)
                               | Inr validated \<Rightarrow>
                                   (case filter_status [''FAILED'', ''RETRY_EXHAUSTED'']
                                           (detected_fields (sm_state sm2)) of
                                      Inl e \<Rightarrow> (Some e, sm2, w4)
                                    | Inr pool \<Rightarrow>
                                        (case set_validated_fields (env_clock env) sm2 validated pool w4 of
                                           (sm3, w5) \<Rightarrow>
                                             (case complete_phase (env_clock env) sm3 w5 of
                                                (sm4, w6) \<Rightarrow>
                                                  (None, sm4, report_progress env VALIDATION 100 w6)))))))))"

subsection \<open>Checkpoint manager (\<^verbatim>\<open>workflow/checkpoint.py\<close>)\<close>

text \<open>
  A dict display \<^verbatim>\<open>{k1: e1, k2: e2, ..}\<close>: the values are evaluated in order and the first
  exception leaves the display.
\<close>

definition dict_literal :: "(string \<times> (error + json)) list \<Rightarrow> error + json" where
  "dict_literal entries =
     (case map_err (\<lambda>kv. case snd kv of Inl e \<Rightarrow> Inl e | Inr v \<Rightarrow> Inr (fst kv, v)) entries of
        Inl e \<Rightarrow> Inl e
      | Inr items \<Rightarrow> Inr (JObj items))"

text \<open>\<^verbatim>\<open>dataclasses.asdict\<close> on the three nested dataclasses: the keys are the attribute names.\<close>

definition asdict_Coordinates :: "Coordinates \<Rightarrow> json" where
  "asdict_Coordinates c =
     JObj [(''x'', JFloat (coord_x c)), (''y'', JFloat (coord_y c)),
           (''width'', JFloat (coord_width c)), (''height'', JFloat (coord_height c))]"

definition asdict_FieldHierarchy :: "FieldHierarchy \<Rightarrow> json" where
  "asdict_FieldHierarchy h =
     JObj [(''section'', JStr (hier_section h)),
           (''subsection'', opt_str_json (hier_subsection h)),
           (''entry'', opt_str_json (hier_entry h)),
           (''field_label'', opt_str_json (hier_field_label h))]"

definition asdict_CSSCoordinates :: "CSSCoordinates \<Rightarrow> json" where
  "asdict_CSSCoordinates c =
     JObj [(''top'', JStr (css_top c)), (''left'', JStr (css_left c)),
           (''width'', JStr (css_width c)), (''height'', JStr (css_height c))]"

definition serialize_phase_progress :: "PhaseProgress \<Rightarrow> json" where
  "serialize_phase_progress progress =
     JObj [(''phase'', JStr (WorkflowPhase_value (pp_phase progress))),
           (''startedAt'', (case pp_started_at progress of
                              Some t \<Rightarrow> JStr (isoformat t) | None \<Rightarrow> JNull)),
           (''completedAt'', (case pp_completed_at progress of
                                Some t \<Rightarrow> JStr (isoformat t) | None \<Rightarrow> JNull)),
           (''progressPercent'', JFloat (pp_progress_percent progress)),
           (''itemsTotal'', JInt (pp_items_total progress)),
           (''itemsCompleted'', JInt (pp_items_completed progress)),
           (''errorMessage'', opt_str_json (pp_error_message progress))]"

definition serialize_page_info :: "PageInfo \<Rightarrow> json" where
  "serialize_page_info page =
     JObj [(''pageNumber'', JInt (pi_page_number page)),
           (''width'', JFloat (pi_width page)),
           (''height'', JFloat (pi_height page))]"

text \<open>
  \<^verbatim>\<open>_serialize_field\<close>. The last three entries read \<^verbatim>\<open>field.tab_index\<close>, \<^verbatim>\<open>field.label\<close>
  and \<^verbatim>\<open>field.placeholder\<close>; the dataclass \<^verbatim>\<open>DetectedField\<close> declares none of them (and
  nothing in the program sets them on an instance), so each read raises
  \<^verbatim>\<open>AttributeError\<close>. The attributes \<^verbatim>\<open>section_id\<close>, \<^verbatim>\<open>ui_hints\<close>, \<^verbatim>\<open>retry_count\<close> and
  \<^verbatim>\<open>validation_evidence\<close> are not written.
\<close>

definition serialize_field :: "DetectedField \<Rightarrow> error + json" where
  "serialize_field field =
     dict_literal
       [(''fieldId'', Inr (JStr (field_id field))),
        (''fieldType'', Inr (JStr (FieldType_value (field_type field)))),
        (''coordinates'', Inr (asdict_Coordinates (coordinates field))),
        (''hierarchy'', Inr (asdict_FieldHierarchy (hierarchy field))),
        (''pageNumber'', Inr (JInt (page_number field))),
        (''confidenceScore'', Inr (JFloat (confidence_score field))),
        (''validationStatus'', Inr (JStr (ValidationStatus_value (validation_status field)))),
        (''cssCoordinates'', Inr (case css_coordinates field of
                                    Some c \<Rightarrow> asdict_CSSCoordinates c | None \<Rightarrow> JNull)),
        (''renderOrder'', Inr (JInt (render_order field))),
        (''tabIndex'', Inl (AttributeError ''DetectedField'' ''tab_index'')),
        (''label'', Inl (AttributeError ''DetectedField'' ''label'')),
        (''placeholder'', Inl (AttributeError ''DetectedField'' ''placeholder''))]"

definition serialize_field_list :: "DetectedField list \<Rightarrow> error + json" where
  "serialize_field_list fs =
     (case map_err serialize_field fs of Inl e \<Rightarrow> Inl e | Inr vs \<Rightarrow> Inr (JArr vs))"

definition serialize_state :: "WorkflowState \<Rightarrow> error + json" where
  "serialize_state state =
     dict_literal
       [(''workflowId'', Inr (JStr (workflow_id state))),
        (''documentPath'', Inr (JStr (document_path state))),
        (''documentHash'', Inr (JStr (document_hash state))),
        (''currentPhase'', Inr (JStr (WorkflowPhase_value (current_phase state)))),
        (''phaseHistory'', Inr (JArr (map serialize_phase_progress (phase_history state)))),
        (''pages'', Inr (JArr (map serialize_page_info (pages state)))),
        (''detectedFields'', serialize_field_list (detected_fields state)),
        (''validatedFields'', serialize_field_list (validated_fields state)),
        (''retryPool'', serialize_field_list (retry_pool state)),
        (''outputPaths'', Inr (JObj (map (\<lambda>kv. (fst kv, JStr (snd kv))) (output_paths state)))),
        (''startedAt'', Inr (JStr (isoformat (started_at state)))),
        (''updatedAt'', Inr (JStr (isoformat (updated_at state)))),
        (''error'', Inr (opt_str_json (ws_error state)))]"

text \<open>Enumeration lookup by value, \<^verbatim>\<open>WorkflowPhase(v)\<close> and \<^verbatim>\<open>FieldType(v)\<close>.\<close>

definition WorkflowPhase_of :: "json \<Rightarrow> error + WorkflowPhase" where
  "WorkflowPhase_of v =
     (if v = JStr ''init'' then Inr INIT
      else if v = JStr ''loading'' then Inr LOADING
      else if v = JStr ''detection'' then Inr DETECTION
      else if v = JStr ''validation'' then Inr VALIDATION
      else if v = JStr ''organization'' then Inr ORGANIZATION
      else if v = JStr ''output'' then Inr OUTPUT
      else if v = JStr ''complete'' then Inr COMPLETE
      else if v = JStr ''error'' then Inr ERROR
      else Inl (ValueError ''not a valid WorkflowPhase''))"

definition FieldType_of :: "json \<Rightarrow> error + FieldType" where
  "FieldType_of v =
     (if v = JStr ''text-input'' then Inr TEXT_INPUT
      else if v = JStr ''signature'' then Inr SIGNATURE
      else if v = JStr ''date'' then Inr DATE
      else if v = JStr ''checkbox'' then Inr CHECKBOX
      else Inl (ValueError ''not a valid FieldType''))"

text \<open>\<^verbatim>\<open>datetime.fromisoformat(data[k]) if data.get(k) else None\<close>.\<close>

definition optional_datetime :: "(string \<Rightarrow> bool) \<Rightarrow> json \<Rightarrow> string \<Rightarrow> error + datetime option" where
  "optional_datetime iso_ok data k =
     bind_err (dict_get data k JNull) (\<lambda>present.
       if truthy present then
         bind_err (subscript data k) (\<lambda>v.
         bind_err (fromisoformat iso_ok v) (\<lambda>t. Inr (Some t)))
       else Inr None)"

definition deserialize_phase_progress :: "(string \<Rightarrow> bool) \<Rightarrow> json \<Rightarrow> error + PhaseProgress" where
  "deserialize_phase_progress iso_ok data =
     bind_err (subscript data ''phase'') (\<lambda>pv.
     bind_err (WorkflowPhase_of pv) (\<lambda>phase.
     bind_err (optional_datetime iso_ok data ''startedAt'') (\<lambda>started.
     bind_err (optional_datetime iso_ok data ''completedAt'') (\<lambda>completed.
     bind_err (dict_get data ''progressPercent'' (JFloat 0)) (\<lambda>ppv.
     bind_err (as_float ppv) (\<lambda>percent.
     bind_err (dict_get data ''itemsTotal'' (JInt 0)) (\<lambda>itv.
     bind_err (as_int itv) (\<lambda>items_total.
     bind_err (dict_get data ''itemsCompleted'' (JInt 0)) (\<lambda>icv.
     bind_err (as_int icv) (\<lambda>items_completed.
     bind_err (dict_get data ''errorMessage'' JNull) (\<lambda>emv.
     bind_err (as_opt_str emv) (\<lambda>error_message.
       Inr \<lparr>pp_phase = phase, pp_started_at = started, pp_completed_at = completed,
            pp_progress_percent = percent, pp_items_total = items_total,
            pp_items_completed = items_completed,
            pp_error_message = error_message\<rparr>))))))))))))"

definition deserialize_page_info :: "json \<Rightarrow> error + PageInfo" where
  "deserialize_page_info data =
     bind_err (subscript data ''pageNumber'') (\<lambda>pnv.
     bind_err (as_int pnv) (\<lambda>pn.
     bind_err (subscript data ''width'') (\<lambda>wv.
     bind_err (as_float wv) (\<lambda>wd.
     bind_err (subscript data ''height'') (\<lambda>hv.
     bind_err (as_float hv) (\<lambda>ht.
       Inr \<lparr>pi_page_number = pn, pi_width = wd, pi_height = ht\<rparr>))))))"

text \<open>
  \<^verbatim>\<open>_deserialize_field\<close>. The arguments of the constructor calls are evaluated in order;
  the call \<^verbatim>\<open>FieldHierarchy(.., field_name=hierarchy_data["field_name"])\<close> first needs the
  key \<^verbatim>\<open>field_name\<close> and then passes a keyword that \<^verbatim>\<open>FieldHierarchy\<close> does not accept
  (its fourth attribute is \<^verbatim>\<open>field_label\<close>), which is a \<^verbatim>\<open>TypeError\<close>. No path returns a
  field.
\<close>

definition deserialize_field :: "json \<Rightarrow> error + DetectedField" where
  "deserialize_field data =
     bind_err (subscript data ''coordinates'') (\<lambda>coords_data.
     bind_err (subscript data ''hierarchy'') (\<lambda>hierarchy_data.
     bind_err (dict_get data ''cssCoordinates'' JNull) (\<lambda>css_data.
     bind_err (subscript data ''fieldId'') (\<lambda>fid.
     bind_err (subscript data ''fieldType'') (\<lambda>ftv.
     bind_err (FieldType_of ftv) (\<lambda>ft.
     bind_err (subscript coords_data ''x'') (\<lambda>cx.
     bind_err (subscript coords_data ''y'') (\<lambda>cy.
     bind_err (subscript coords_data ''width'') (\<lambda>cw.
     bind_err (subscript coords_data ''height'') (\<lambda>ch.
     bind_err (subscript hierarchy_data ''section'') (\<lambda>hs.
     bind_err (dict_get hierarchy_data ''subsection'' JNull) (\<lambda>hsub.
     bind_err (dict_get hierarchy_data ''entry'' JNull) (\<lambda>hent.
     bind_err (subscript hierarchy_data ''field_name'') (\<lambda>hname.
       Inl (TypeError ''FieldHierarchy got an unexpected keyword argument field_name'')))))))))))))))"

definition deserialize_list :: "(json \<Rightarrow> error + 'a) \<Rightarrow> json \<Rightarrow> string \<Rightarrow> error + 'a list" where
  "deserialize_list f data k =
     bind_err (dict_get data k (JArr [])) (\<lambda>v.
     bind_err (py_iter v) (\<lambda>xs. map_err f xs))"

definition deserialize_output_paths :: "json \<Rightarrow> error + (string \<times> string) list" where
  "deserialize_output_paths v =
     (case v of
        JObj items \<Rightarrow>
          map_err (\<lambda>kv. bind_err (as_str (snd kv)) (\<lambda>t. Inr (fst kv, t))) items
      | _ \<Rightarrow> Inl (TypeError ''expected an object of strings''))"

definition deserialize_state :: "(string \<Rightarrow> bool) \<Rightarrow> json \<Rightarrow> error + WorkflowState" where
  "deserialize_state iso_ok data =
     bind_err (subscript data ''workflowId'') (\<lambda>widv.
     bind_err (as_str widv) (\<lambda>wid.
     bind_err (subscript data ''documentPath'') (\<lambda>dpv.
     bind_err (as_str dpv) (\<lambda>dp.
     bind_err (dict_get data ''documentHash'' (JStr [])) (\<lambda>dhv.
     bind_err (as_str dhv) (\<lambda>dh.
     bind_err (subscript data ''currentPhase'') (\<lambda>cpv.
     bind_err (WorkflowPhase_of cpv) (\<lambda>cp.
     bind_err (deserialize_list (deserialize_phase_progress iso_ok) data ''phaseHistory'') (\<lambda>history.
     bind_err (deserialize_list deserialize_page_info data ''pages'') (\<lambda>pgs.
     bind_err (deserialize_list deserialize_field data ''detectedFields'') (\<lambda>detected.
     bind_err (deserialize_list deserialize_field data ''validatedFields'') (\<lambda>validated.
     bind_err (deserialize_list deserialize_field data ''retryPool'') (\<lambda>pool.
     bind_err (dict_get data ''outputPaths'' (JObj [])) (\<lambda>opv.
     bind_err (deserialize_output_paths opv) (\<lambda>paths.
     bind_err (subscript data ''startedAt'') (\<lambda>sav.
     bind_err (fromisoformat iso_ok sav) (\<lambda>started.
     bind_err (subscript data ''updatedAt'') (\<lambda>uav.
     bind_err (fromisoformat iso_ok uav) (\<lambda>updated.
     bind_err (dict_get data ''error'' JNull) (\<lambda>ev.
     bind_err (as_opt_str ev) (\<lambda>err.
       Inr \<lparr>workflow_id = wid, document_path = dp, document_hash = dh, current_phase = cp,
            phase_history = history, pages = pgs, detected_fields = detected,
            validated_fields = validated, retry_pool = pool, output_paths = paths,
            started_at = started, updated_at = updated, ws_error = err\<rparr>)))))))))))))))))))))"

text \<open>
  The checkpoint directory: its path, the file \<^verbatim>\<open><id>.json\<close> of each workflow identifier,
  whether the directory can be created (\<^verbatim>\<open>mkdir\<close>), whether a file in it can be opened
  for writing, and whether a file in it can be removed (\<^verbatim>\<open>unlink\<close>).
\<close>

record checkpoint_folder =
  ckpt_path :: string
  ckpt_files :: "string \<rightharpoonup> disk_file"
  ckpt_mkdir_ok :: bool
  ckpt_write_ok :: bool
  ckpt_unlink_ok :: bool

definition save_checkpoint ::
  "checkpoint_folder \<Rightarrow> StateManager \<Rightarrow> (error + string) \<times> checkpoint_folder" where
  "save_checkpoint folder state_manager =
     (if \<not> ckpt_mkdir_ok folder then (Inl (OSError ''mkdir''), folder)
      else
        let state = sm_state state_manager
        in case serialize_state state of
             Inl e \<Rightarrow> (Inl (CheckpointError ''save'' (workflow_id state) e), folder)
           | Inr data \<Rightarrow>
               if \<not> ckpt_write_ok folder then
                 (Inl (CheckpointError ''save'' (workflow_id state) (OSError ''open'')), folder)
               else
                 (Inr (ckpt_path folder @ ''/'' @ workflow_id state @ ''.json''),
                  folder\<lparr>ckpt_files := (ckpt_files folder)(workflow_id state \<mapsto> Json data)\<rparr>))"

definition load_checkpoint ::
  "(string \<Rightarrow> bool) \<Rightarrow> checkpoint_folder \<Rightarrow> string \<Rightarrow> error + WorkflowState option" where
  "load_checkpoint iso_ok folder wid =
     (case ckpt_files folder wid of
        None \<Rightarrow> Inr None
      | Some Inaccessible \<Rightarrow> Inl (OSError ''stat'')
      | Some Unreadable \<Rightarrow> Inl (CheckpointError ''load'' wid (OSError ''open''))
      | Some NotJson \<Rightarrow> Inl (CheckpointError ''load'' wid (ValueError ''JSONDecodeError''))
      | Some (Json data) \<Rightarrow>
          (case deserialize_state iso_ok data of
             Inl e \<Rightarrow> Inl (CheckpointError ''load'' wid e)
           | Inr state \<Rightarrow> Inr (Some state)))"

text \<open>
  \<^verbatim>\<open>delete_checkpoint\<close> has no \<^verbatim>\<open>try\<close>: an \<^verbatim>\<open>OSError\<close> from \<^verbatim>\<open>exists()\<close> or from \<^verbatim>\<open>unlink()\<close>
  leaves the method.
\<close>

definition delete_checkpoint ::
  "checkpoint_folder \<Rightarrow> string \<Rightarrow> (error + bool) \<times> checkpoint_folder" where
  "delete_checkpoint folder wid =
     (case ckpt_files folder wid of
        None \<Rightarrow> (Inr False, folder)
      | Some Inaccessible \<Rightarrow> (Inl (OSError ''stat''), folder)
      | Some f \<Rightarrow>
          if ckpt_unlink_ok folder
          then (Inr True, folder\<lparr>ckpt_files := (ckpt_files folder)(wid := None)\<rparr>)
          else (Inl (OSError ''unlink''), folder))"

subsection \<open>Resuming a workflow (\<^verbatim>\<open>DiscoveryWorkflow.resume\<close>)\<close>

text \<open>
  The dict that \<^verbatim>\<open>_build_result\<close> returns, and the dict with status \<^verbatim>\<open>cached\<close> that
  \<^verbatim>\<open>_check_cache\<close> returns (the cached golden map and the cache identifier).
\<close>

record workflow_result =
  res_workflow_id :: string
  res_document_hash :: string
  res_output_paths :: "(string \<times> string) list"
  res_total_pages :: int
  res_total_fields :: int
  res_validated_fields :: int
  res_retry_pool_size :: int
  res_accuracy :: real
  res_elapsed_time :: real

datatype result = Complete workflow_result | Cached json json

text \<open>
  The parts of the orchestrator that \<^verbatim>\<open>resume\<close> calls and that stay opaque here: \<^verbatim>\<open>run\<close>
  (which replaces the state manager and may write a checkpoint), the four phases after
  loading (which act on the state manager and the world, never on the checkpoint
  directory), \<^verbatim>\<open>Path(p).stem\<close>, and the difference of two timestamps in seconds.
\<close>

record 'w phase_ops =
  op_run :: "checkpoint_folder \<Rightarrow> 'w \<Rightarrow> string
               \<Rightarrow> (error + result) \<times> checkpoint_folder \<times> StateManager \<times> 'w"
  op_detection :: "StateManager \<Rightarrow> 'w \<Rightarrow> error option \<times> StateManager \<times> 'w"
  op_validation :: "StateManager \<Rightarrow> 'w \<Rightarrow> error option \<times> StateManager \<times> 'w"
  op_organization :: "StateManager \<Rightarrow> 'w \<Rightarrow> error option \<times> StateManager \<times> 'w"
  op_output :: "StateManager \<Rightarrow> 'w \<Rightarrow> string
                  \<Rightarrow> (error + (string \<times> string) list) \<times> StateManager \<times> 'w"
  op_stem :: "string \<Rightarrow> string"
  op_seconds_between :: "datetime \<Rightarrow> datetime \<Rightarrow> real"

text \<open>
  \<^verbatim>\<open>WorkflowStateError(*args)\<close>: the constructor takes exactly \<^verbatim>\<open>current_step\<close>,
  \<^verbatim>\<open>expected_state\<close> and \<^verbatim>\<open>actual_state\<close>; any other number of arguments is a
  \<^verbatim>\<open>TypeError\<close>, which is then the exception that the \<^verbatim>\<open>raise\<close> statement raises.
\<close>

definition WorkflowStateError_new :: "string list \<Rightarrow> error" where
  "WorkflowStateError_new args =
     (case args of
        [current_step, expected_state, actual_state] \<Rightarrow>
          WorkflowStateError current_step expected_state actual_state
      | _ \<Rightarrow> TypeError ''WorkflowStateError.__init__() takes 3 positional arguments'')"

text \<open>\<^verbatim>\<open>_build_result\<close>.\<close>

definition build_result ::
  "'w clock \<Rightarrow> 'w phase_ops \<Rightarrow> StateManager \<Rightarrow> (string \<times> string) list \<Rightarrow> 'w \<Rightarrow> result \<times> 'w" where
  "build_result now ops sm paths w =
     (let state = sm_state sm
      in case now w of (t, w1) \<Rightarrow>
           (Complete
              \<lparr>res_workflow_id = workflow_id state,
               res_document_hash = document_hash state,
               res_output_paths = paths,
               res_total_pages = int (length (pages state)),
               res_total_fields = int (length (detected_fields state)),
               res_validated_fields = int (length (validated_fields state)),
               res_retry_pool_size = int (length (retry_pool state)),
               res_accuracy =
                 (if detected_fields state \<noteq> []
                  then real (length (validated_fields state)) / real (length (detected_fields state)) * 100
                  else 0),
               res_elapsed_time = op_seconds_between ops t (started_at state)\<rparr>, w1))"

text \<open>
  Lines 143--147 of \<^verbatim>\<open>resume\<close>: the phase to restart from. For a checkpoint in the error
  phase it is the phase of the last record in the history (\<^verbatim>\<open>INIT\<close> for an empty history).
\<close>

definition resume_point :: "WorkflowState \<Rightarrow> WorkflowPhase" where
  "resume_point state =
     (if current_phase state = ERROR
      then (if phase_history state \<noteq> [] then pp_phase (last (phase_history state)) else INIT)
      else current_phase state)"

text \<open>A sequence of awaited phases: the first exception ends it.\<close>

fun run_phases ::
  "(StateManager \<Rightarrow> 'w \<Rightarrow> error option \<times> StateManager \<times> 'w) list \<Rightarrow> StateManager \<Rightarrow> 'w
     \<Rightarrow> error option \<times> StateManager \<times> 'w" where
  "run_phases [] sm w = (None, sm, w)"
| "run_phases (ph # phs) sm w =
     (case ph sm w of
        (Some e, sm', w') \<Rightarrow> (Some e, sm', w')
      | (None, sm', w') \<Rightarrow> run_phases phs sm' w')"

text \<open>Lines 152--171: the phases that remain, ending with the output phase.\<close>

definition remaining_phases ::
  "'w phase_ops \<Rightarrow> WorkflowPhase \<Rightarrow> StateManager \<Rightarrow> 'w
     \<Rightarrow> (error + (string \<times> string) list) \<times> StateManager \<times> 'w" where
  "remaining_phases ops current sm w =
     (let before_output =
            (if current = DETECTION then Some [op_detection ops, op_validation ops, op_organization ops]
             else if current = VALIDATION then Some [op_validation ops, op_organization ops]
             else if current = ORGANIZATION then Some [op_organization ops]
             else if current = OUTPUT then Some []
             else None)
      in case before_output of
           None \<Rightarrow> (Inr (output_paths (sm_state sm)), sm, w)
         | Some phs \<Rightarrow>
             (case run_phases phs sm w of
                (Some e, sm', w') \<Rightarrow> (Inl e, sm', w')
              | (None, sm', w') \<Rightarrow> op_output ops sm' w' (op_stem ops (document_path (sm_state sm')))))"

text \<open>
  \<^verbatim>\<open>resume\<close>. The arguments after the collaborators are the checkpoint directory, the
  attribute \<^verbatim>\<open>_state_manager\<close> of the workflow object, the world, and the workflow
  identifier; the result carries the three as the call leaves them.
\<close>

definition resume ::
  "'w clock \<Rightarrow> (string \<Rightarrow> bool) \<Rightarrow> 'w phase_ops \<Rightarrow> checkpoint_folder \<Rightarrow> StateManager option \<Rightarrow> 'w
     \<Rightarrow> string \<Rightarrow> (error + result) \<times> checkpoint_folder \<times> StateManager option \<times> 'w" where
  "resume now iso_ok ops folder state_manager w wid =
     (case load_checkpoint iso_ok folder wid of
        Inl e \<Rightarrow> (Inl e, folder, state_manager, w)
      | Inr None \<Rightarrow>
          (Inl (WorkflowStateError_new [''resume'', ''Checkpoint not found: '' @ wid]),
           folder, state_manager, w)
      | Inr (Some state) \<Rightarrow>
          (case StateManager_init now (workflow_id state) (document_path state) w of
             (sm0, w1) \<Rightarrow>
               (let sm = sm0\<lparr>sm_state := state\<rparr>;
                    current = resume_point state
                in if current = INIT \<or> current = LOADING then
                     (case op_run ops folder w1 (document_path state) of
                        (r, folder', sm', w2) \<Rightarrow> (r, folder', Some sm', w2))
                   else
                     (case remaining_phases ops current sm w1 of
                        (Inl e, sm', w2) \<Rightarrow> (Inl e, folder, Some sm', w2)
                      | (Inr paths, sm', w2) \<Rightarrow>
                          (case delete_checkpoint folder wid of
                             (Inl e, folder') \<Rightarrow> (Inl e, folder', Some sm', w2)
                           | (Inr deleted, folder') \<Rightarrow>
                               (case build_result now ops sm' paths w2 of
                                  (r, w3) \<Rightarrow> (Inr r, folder', Some sm', w3)))))))"

subsection \<open>Cache index and sidecar store (\<^verbatim>\<open>cache/index.py\<close>, \<^verbatim>\<open>cache/sidecar.py\<close>)\<close>

text \<open>
  The loader of the index does not check the types of the values it reads, so the
  attributes of a \<^verbatim>\<open>CacheEntry\<close> hold JSON values.
\<close>

record CacheEntry =
  cache_id :: json
  entry_document_hash :: json
  document_name :: json
  cached_date :: json
  golden_map_path :: json
  field_count :: json
  accuracy_score :: json

text \<open>
  Keys of a Python dict. Lists and dicts are unhashable; \<^verbatim>\<open>True\<close>, \<^verbatim>\<open>1\<close> and \<^verbatim>\<open>1.0\<close> are
  the same key.
\<close>

datatype hashkey = HNone | HNum real | HStr string


text \<open>
  The cache directory: the index file, the stored golden maps by content hash (the files
  \<^verbatim>\<open><hash>.json\<close>), whether the directory can be created, and whether a file in it can be
  opened for writing.
\<close>

record cache_folder =
  cache_index_file :: "disk_file option"
  cache_store :: "string \<rightharpoonup> disk_file"
  cache_mkdir_ok :: bool
  cache_write_ok :: bool

text \<open>
  The attribute \<^verbatim>\<open>_entries\<close>: a dict in insertion order, as an association list (assignment
  to a present key keeps its position).
\<close>

record CacheIndex =
  idx_entries :: "(hashkey \<times> CacheEntry) list"









definition get_entry :: "CacheIndex \<Rightarrow> string \<Rightarrow> CacheEntry option" where
  "get_entry idx dhash = map_of (idx_entries idx) (HStr dhash)"

text \<open>
  \<^verbatim>\<open>SidecarManager.retrieve_golden_map\<close>: the test \<^verbatim>\<open>cache_path.exists()\<close> stands before
  the \<^verbatim>\<open>try\<close>, so an \<^verbatim>\<open>OSError\<close> from it leaves the method. Python's \<^verbatim>\<open>None\<close> is
  \<open>JNull\<close>, also when it is what the stored file holds.
\<close>

definition retrieve_golden_map :: "cache_folder \<Rightarrow> string \<Rightarrow> error + json" where
  "retrieve_golden_map folder dhash =
     (case cache_store folder dhash of
        None \<Rightarrow> Inr JNull
      | Some Inaccessible \<Rightarrow> Inl (OSError ''stat'')
      | Some Unreadable \<Rightarrow> Inr JNull
      | Some NotJson \<Rightarrow> Inr JNull
      | Some (Json v) \<Rightarrow> Inr v)"

text \<open>\<^verbatim>\<open>DiscoveryWorkflow._check_cache\<close>.\<close>

definition check_cache ::
  "'w environment \<Rightarrow> DiscoveryConfig \<Rightarrow> CacheIndex \<Rightarrow> cache_folder \<Rightarrow> 'w \<Rightarrow> string
     \<Rightarrow> (error + result option) \<times> 'w" where
  "check_cache env config idx folder w pdf_path =
     (if \<not> cache_enabled (cache config) then (Inr None, w)
      else case env_md5 env w pdf_path of
             (Inl e, w1) \<Rightarrow> (Inl e, w1)
           | (Inr md5_hash, w1) \<Rightarrow>
               (case get_entry idx md5_hash of
                  None \<Rightarrow> (Inr None, w1)
                | Some cache_entry \<Rightarrow>
                    (case retrieve_golden_map folder md5_hash of
                       Inl e \<Rightarrow> (Inl e, w1)
                     | Inr cached_map \<Rightarrow>
                         if truthy cached_map then
                           (Inr (Some (Cached cached_map (cache_id cache_entry))),
                            report_progress env COMPLETE 100 w1)
                         else (Inr None, w1))))"









subsection \<open>Notions used to state the properties of validation\<close>

text \<open>
  A field with the three attributes that validation writes reset: two fields with the same
  image are the same field up to retry count, evidence and status.
\<close>

definition untouched :: "DetectedField \<Rightarrow> DetectedField" where
  "untouched f = f\<lparr>retry_count := 0, validation_evidence := None, validation_status := PENDING\<rparr>"

text \<open>An exchange that failed: a timeout, a transport error, or a status other than 200.\<close>

definition call_failed :: "'r http_outcome \<Rightarrow> bool" where
  "call_failed outcome =
     (case outcome of HttpResponse status_code text content \<Rightarrow> status_code \<noteq> 200 | _ \<Rightarrow> True)"

text \<open>
  The timestamps of a state are texts that \<^verbatim>\<open>datetime.fromisoformat\<close> accepts (and, being
  the output of \<^verbatim>\<open>isoformat\<close>, not empty).
\<close>

definition timestamps_ok :: "(string \<Rightarrow> bool) \<Rightarrow> WorkflowState \<Rightarrow> bool" where
  "timestamps_ok iso_ok s =
     (iso_ok (isoformat (started_at s)) \<and> iso_ok (isoformat (updated_at s)) \<and>
      list_all (\<lambda>p. (case pp_started_at p of
                        Some d \<Rightarrow> iso_ok (isoformat d) \<and> isoformat d \<noteq> [] | None \<Rightarrow> True) \<and>
                     (case pp_completed_at p of
                        Some d \<Rightarrow> iso_ok (isoformat d) \<and> isoformat d \<noteq> [] | None \<Rightarrow> True))
        (phase_history s))"

subsection \<open>Concrete inputs\<close>

definition example_box :: Coordinates where
  "example_box = \<lparr>coord_x = 100, coord_y = 200, coord_width = 150, coord_height = 25\<rparr>"

definition example_field :: "string \<Rightarrow> int \<Rightarrow> Coordinates \<Rightarrow> DetectedField" where
  "example_field fid page box =
     \<lparr>field_id = fid, field_type = TEXT_INPUT, coordinates = box,
      hierarchy = \<lparr>hier_section = ''Unknown'', hier_subsection = None, hier_entry = None,
                   hier_field_label = None\<rparr>,
      page_number = page, confidence_score = 0.97, validation_status = PENDING,
      section_id = [], render_order = 0, css_coordinates = None, ui_hints = None,
      retry_count = 0, validation_evidence = None\<rparr>"


definition example_images :: "int \<rightharpoonup> string" where
  "example_images = [1 \<mapsto> ''page-1'', 2 \<mapsto> ''page-2'']"


text \<open>
  A service with a call counter as its world: the first two calls measure the box three
  units off, every later call times out.
\<close>

definition flaky_service :: "nat service" where
  "flaky_service w image_data field ps =
     (if w < 2 then HttpResponse 200 [] (True, example_box\<lparr>coord_x := 103\<rparr>, 0.9) else HttpTimeout,
      Suc w)"

definition flaky_coordinator :: "nat ValidationCoordinator" where
  "flaky_coordinator =
     ValidationCoordinator_init (validate_coordinates (glm default_config) flaky_service) default_config"



text \<open>A configuration with tolerance 1.0, and a service that measures 0.8 units off.\<close>

definition lenient_config :: DiscoveryConfig where
  "lenient_config = default_config\<lparr>validation := (validation default_config)\<lparr>tolerance := 1\<rparr>\<rparr>"

definition near_service :: "unit service" where
  "near_service w image_data field ps =
     (HttpResponse 200 [] (True, example_box\<lparr>coord_x := 100.8\<rparr>, 0.9), w)"

definition lenient_coordinator :: "unit ValidationCoordinator" where
  "lenient_coordinator =
     ValidationCoordinator_init (validate_coordinates (glm lenient_config) near_service) lenient_config"

text \<open>
  A workflow whose clock stands still, whose document has two pages, and whose service
  measures every box three units off; a workflow state after detection.
\<close>

definition fixed_clock :: "unit clock" where
  "fixed_clock w = (DateTime ''2025-01-01T00:00:00'', w)"

definition off_service :: "unit service" where
  "off_service w image_data field ps =
     (HttpResponse 200 [] (True, example_box\<lparr>coord_x := 103\<rparr>, 0.9), w)"

definition example_env :: "unit environment" where
  "example_env =
     \<lparr>env_clock = fixed_clock, env_progress = None,
      env_render = (\<lambda>w path. (Inr [''page-1'', ''page-2''], w)),
      env_service = off_service,
      env_md5 = (\<lambda>w path. (Inr ''d41d8cd9'', w))\<rparr>"

definition example_state :: "DetectedField list \<Rightarrow> WorkflowState" where
  "example_state fs =
     \<lparr>workflow_id = ''wf_0123456789ab'', document_path = ''form.pdf'', document_hash = ''d41d8cd9'',
      current_phase = DETECTION, phase_history = [], pages = [],
      detected_fields = fs, validated_fields = [], retry_pool = [],
      output_paths = [], started_at = DateTime ''2025-01-01T00:00:00'',
      updated_at = DateTime ''2025-01-01T00:00:00'', ws_error = None\<rparr>"

definition example_manager :: "DetectedField list \<Rightarrow> StateManager" where
  "example_manager fs = \<lparr>sm_state = example_state fs, current_progress = None\<rparr>"

text \<open>
  A checkpoint directory without files; a stand-in for the library's check of ISO-8601
  text that accepts every non-empty string; phases that succeed without doing anything;
  the state of a finished workflow without fields, the directory after saving it, and the
  first \<^verbatim>\<open>resume\<close> on that directory.
\<close>

definition example_folder :: checkpoint_folder where
  "example_folder =
     \<lparr>ckpt_path = ''./checkpoints'', ckpt_files = Map.empty,
      ckpt_mkdir_ok = True, ckpt_write_ok = True, ckpt_unlink_ok = True\<rparr>"

definition lenient_iso :: "string \<Rightarrow> bool" where
  "lenient_iso t = (t \<noteq> [])"

definition idle_phase :: "StateManager \<Rightarrow> unit \<Rightarrow> error option \<times> StateManager \<times> unit" where
  "idle_phase sm w = (None, sm, w)"

definition idle_ops :: "unit phase_ops" where
  "idle_ops =
     \<lparr>op_run = (\<lambda>folder w path.
                  (Inl (PDFLoadError path ''File does not exist''), folder,
                   \<lparr>sm_state = example_state [], current_progress = None\<rparr>, w)),
      op_detection = idle_phase, op_validation = idle_phase, op_organization = idle_phase,
      op_output = (\<lambda>sm w name. (Inr [(''golden_map'', ''output/'' @ name @ ''.json'')], sm, w)),
      op_stem = (\<lambda>path. takeWhile (\<lambda>ch. ch \<noteq> CHR ''.'') path),
      op_seconds_between = (\<lambda>t1 t2. 0)\<rparr>"

definition finished_state :: WorkflowState where
  "finished_state =
     (example_state [])\<lparr>current_phase := COMPLETE,
                         output_paths := [(''golden_map'', ''output/form.json'')]\<rparr>"

definition saved_folder :: checkpoint_folder where
  "saved_folder =
     snd (save_checkpoint example_folder \<lparr>sm_state = finished_state, current_progress = None\<rparr>)"

definition first_resume ::
  "(error + result) \<times> checkpoint_folder \<times> StateManager option \<times> unit" where
  "first_resume = resume fixed_clock lenient_iso idle_ops saved_folder None () ''wf_0123456789ab''"

text \<open>
  A workflow that failed before its first phase: \<^verbatim>\<open>run\<close> recorded the error and saved the
  checkpoint, so the state is in the error phase with an empty history. A clock that
  stands still in a world that counts the runs of the pipeline, and a workflow whose
  \<^verbatim>\<open>run\<close> now succeeds (each call is one more run) without writing a checkpoint.
\<close>

definition failed_state :: WorkflowState where
  "failed_state =
     (example_state [])\<lparr>current_phase := ERROR, ws_error := Some ''File does not exist''\<rparr>"

definition failed_folder :: checkpoint_folder where
  "failed_folder =
     snd (save_checkpoint example_folder \<lparr>sm_state = failed_state, current_progress = None\<rparr>)"

definition still_clock :: "nat clock" where
  "still_clock w = (DateTime ''2025-01-01T00:00:00'', w)"

definition rerun_result :: result where
  "rerun_result =
     Complete
       \<lparr>res_workflow_id = ''wf_abcdef012345'', res_document_hash = ''d41d8cd9'',
        res_output_paths = [(''golden_map'', ''output/form.json'')],
        res_total_pages = 0, res_total_fields = 0, res_validated_fields = 0,
        res_retry_pool_size = 0, res_accuracy = 0, res_elapsed_time = 0\<rparr>"

definition rerun_ops :: "nat phase_ops" where
  "rerun_ops =
     \<lparr>op_run = (\<lambda>folder w path.
                  (Inr rerun_result, folder,
                   \<lparr>sm_state = finished_state\<lparr>workflow_id := ''wf_abcdef012345''\<rparr>,
                    current_progress = None\<rparr>, Suc w)),
      op_detection = (\<lambda>sm w. (None, sm, w)),
      op_validation = (\<lambda>sm w. (None, sm, w)),
      op_organization = (\<lambda>sm w. (None, sm, w)),
      op_output = (\<lambda>sm w name. (Inr [(''golden_map'', ''output/'' @ name @ ''.json'')], sm, w)),
      op_stem = (\<lambda>path. takeWhile (\<lambda>ch. ch \<noteq> CHR ''.'') path),
      op_seconds_between = (\<lambda>t1 t2. 0)\<rparr>"

text \<open>
  A cache directory without files, one whose index file is not JSON, and an index entry;
  a cache directory where the status of the stored golden map cannot be determined, one
  where the status of the index file cannot be determined, and one whose index file has
  the keys of the layout with values of other types.
\<close>

definition empty_cache :: cache_folder where
  "empty_cache =
     \<lparr>cache_index_file = None, cache_store = Map.empty, cache_mkdir_ok = True,
      cache_write_ok = True\<rparr>"

definition example_entry :: CacheEntry where
  "example_entry =
     \<lparr>cache_id = JStr ''cache_0123456789ab'', entry_document_hash = JStr ''d41d8cd9'',
      document_name = JStr ''form.pdf'', cached_date = JStr ''2025-01-01T00:00:00'',
      golden_map_path = JStr ''output/form.json'', field_count = JInt 1,
      accuracy_score = JFloat 100\<rparr>"


definition locked_store :: cache_folder where
  "locked_store = empty_cache\<lparr>cache_store := [''d41d8cd9'' \<mapsto> Inaccessible]\<rparr>"




section \<open>Properties\<close>

subsection \<open>Tolerance check\<close>

text \<open>
  Claim C5. For every pair of bounding boxes and every tolerance,
  \<^verbatim>\<open>ToleranceChecker.check(expected, measured)\<close> returns \<^verbatim>\<open>passed = True\<close> exactly when
  each of the four absolute component differences is at most the tolerance, that is when
  their maximum (the Chebyshev distance, which is the second component of the result) is
  at most the tolerance; and when the tolerance equals that maximum exactly, the check
  passes.
\<close>

theorem check_chebyshev:
  "fst (check tol e m) =
     (\<bar>coord_x e - coord_x m\<bar> \<le> tol \<and> \<bar>coord_y e - coord_y m\<bar> \<le> tol \<and>
      \<bar>coord_width e - coord_width m\<bar> \<le> tol \<and> \<bar>coord_height e - coord_height m\<bar> \<le> tol)
   \<and> snd (check tol e m) =
     Max {\<bar>coord_x e - coord_x m\<bar>, \<bar>coord_y e - coord_y m\<bar>,
          \<bar>coord_width e - coord_width m\<bar>, \<bar>coord_height e - coord_height m\<bar>}
   \<and> fst (check tol e m) = (snd (check tol e m) \<le> tol)
   \<and> fst (check (snd (check tol e m)) e m)"
proof -
  have "snd (check tol e m) =
     Max {\<bar>coord_x e - coord_x m\<bar>, \<bar>coord_y e - coord_y m\<bar>,
          \<bar>coord_width e - coord_width m\<bar>, \<bar>coord_height e - coord_height m\<bar>}"
    by (simp add: check_def Let_def)
  moreover have "fst (check tol e m) =
     (\<bar>coord_x e - coord_x m\<bar> \<le> tol \<and> \<bar>coord_y e - coord_y m\<bar> \<le> tol \<and>
      \<bar>coord_width e - coord_width m\<bar> \<le> tol \<and> \<bar>coord_height e - coord_height m\<bar> \<le> tol)"
    by (simp add: check_def Let_def)
  moreover have "fst (check tol e m) = (snd (check tol e m) \<le> tol)"
    by (simp add: check_def Let_def)
  moreover have "fst (check (snd (check tol e m)) e m)"
  proof -
    have "fst (check t e m) = (snd (check tol e m) \<le> t)" for t
      by (simp add: check_def Let_def)
    then show ?thesis by simp
  qed
  ultimately show ?thesis by blast
qed


subsection \<open>Validation of one field and of a list of fields\<close>

lemma vfr_inr:
  "validate_field_with_retry c w img f = (Inr r, f', w') \<Longrightarrow>
     fvr_field r = f' \<and> validation_status f' \<in> {PASSED, SKIPPED} \<and>
     untouched f' = untouched f \<and>
     (retry_count f \<le> eng_max_attempts (retry_engine c)
        \<longrightarrow> retry_count f' \<le> eng_max_attempts (retry_engine c))"
proof (induction c w img f rule: validate_field_with_retry.induct)
  case (1 c w image_data field)
  show ?case
  proof (cases "should_retry (retry_engine c) field")
    case False
    with "1.prems" show ?thesis
      by (auto simp: untouched_def Let_def split: if_splits)
  next
    case True
    note sr = this
    obtain res w1 where p: "coord_provider c w image_data field
        (get_parameters_for_attempt (retry_engine c) (retry_count field + 1)) = (res, w1)"
      by (cases "coord_provider c w image_data field
        (get_parameters_for_attempt (retry_engine c) (retry_count field + 1))") auto
    show ?thesis
    proof (cases res)
      case (Inl e)
      with "1.prems" sr p show ?thesis by (simp add: Let_def)
    next
      case (Inr t)
      obtain passed measured difference where t: "t = (passed, measured, difference)"
        by (cases t) auto
      show ?thesis
      proof (cases passed)
        case True
        with "1.prems" sr p Inr t show ?thesis
          by (auto simp: Let_def untouched_def should_retry_def)
      next
        case False
        let ?f1 = "field\<lparr>retry_count := retry_count field + 1,
                    validation_evidence := Some \<lparr>ev_attempt = retry_count field + 1,
                       ev_measured = measured, ev_difference = difference\<rparr>\<rparr>"
        from "1.prems" sr p Inr t False
        have rec: "validate_field_with_retry c w1 image_data ?f1 = (Inr r, f', w')"
          by (simp add: Let_def)
        have ih: "fvr_field r = f' \<and> validation_status f' \<in> {PASSED, SKIPPED} \<and>
           untouched f' = untouched ?f1 \<and>
           (retry_count ?f1 \<le> eng_max_attempts (retry_engine c)
             \<longrightarrow> retry_count f' \<le> eng_max_attempts (retry_engine c))"
          using "1.IH"[OF sr refl refl p[symmetric] Inr t[symmetric] refl refl _ rec] False by simp
        with sr show ?thesis
          by (auto simp: untouched_def should_retry_def)
      qed
    qed
  qed
qed

lemma account_result_acc:
  "\<exists>g. validated_acc (account_result st r) = validated_acc st @ [g] \<and>
       untouched g = untouched (fvr_field r) \<and>
       validation_status g = validation_status (fvr_field r) \<and>
       retry_count g = retry_count (fvr_field r)"
  by (auto simp: account_result_def add_to_retry_pool_def Let_def untouched_def)

lemma account_result_max:
  "eng_max_attempts (retry_engine (coordinator (account_result st r))) =
     eng_max_attempts (retry_engine (coordinator st))"
  by (auto simp: account_result_def add_to_retry_pool_def Let_def)

lemma loop_inv:
  "validate_all_loop imgs cb batch n idx st w fs = (None, st', heap, w') \<Longrightarrow>
     heap = validated_acc st' \<and>
     eng_max_attempts (retry_engine (coordinator st')) =
       eng_max_attempts (retry_engine (coordinator st)) \<and>
     (\<exists>new. validated_acc st' = validated_acc st @ new \<and>
        map untouched new = map untouched fs \<and>
        (\<forall>f\<in>set new. validation_status f \<in> {PASSED, SKIPPED}) \<and>
        ((\<forall>f\<in>set fs. retry_count f \<le> eng_max_attempts (retry_engine (coordinator st)))
           \<longrightarrow> (\<forall>f\<in>set new. retry_count f \<le> eng_max_attempts (retry_engine (coordinator st)))))"
proof (induction fs arbitrary: idx st w)
  case Nil
  then show ?case by auto
next
  case (Cons field rest)
  from Cons.prems obtain image_data where img: "imgs (page_number field) = Some image_data"
    by (cases "imgs (page_number field)") auto
  obtain res field' w1 where v:
    "validate_field_with_retry (coordinator st) w image_data field = (res, field', w1)"
    by (cases "validate_field_with_retry (coordinator st) w image_data field") auto
  from Cons.prems img v obtain result where res: "res = Inr result"
    by (cases res) auto
  let ?st2 = "account_result st result"
  obtain eo w2 where ep: "emit_progress cb batch n idx ?st2 w1 = (eo, w2)"
    by (cases "emit_progress cb batch n idx ?st2 w1") auto
  from Cons.prems img v res ep have eo: "eo = None"
    by (cases eo) (auto simp: Let_def)
  from Cons.prems img v res ep eo
  have rec: "validate_all_loop imgs cb batch n (idx + 1) ?st2 w2 rest = (None, st', heap, w')"
    by (simp add: Let_def)
  note ih = Cons.IH[OF rec]
  note one = vfr_inr[OF v[unfolded res]]
  obtain g where g: "validated_acc ?st2 = validated_acc st @ [g]"
      "untouched g = untouched (fvr_field result)"
      "validation_status g = validation_status (fvr_field result)"
      "retry_count g = retry_count (fvr_field result)"
    using account_result_acc[of st result] by blast
  from ih obtain new where new: "validated_acc st' = validated_acc ?st2 @ new"
     "map untouched new = map untouched rest"
     "\<forall>f\<in>set new. validation_status f \<in> {PASSED, SKIPPED}"
     "(\<forall>f\<in>set rest. retry_count f \<le> eng_max_attempts (retry_engine (coordinator st)))
           \<longrightarrow> (\<forall>f\<in>set new. retry_count f \<le> eng_max_attempts (retry_engine (coordinator st)))"
    by (auto simp: account_result_max)
  have "validated_acc st' = validated_acc st @ (g # new)" using new g by simp
  moreover have "map untouched (g # new) = map untouched (field # rest)"
    using new g one by simp
  moreover have "\<forall>f\<in>set (g # new). validation_status f \<in> {PASSED, SKIPPED}"
    using new g one by auto
  moreover have "(\<forall>f\<in>set (field # rest). retry_count f \<le> eng_max_attempts (retry_engine (coordinator st)))
           \<longrightarrow> (\<forall>f\<in>set (g # new). retry_count f \<le> eng_max_attempts (retry_engine (coordinator st)))"
    using new g one by auto
  ultimately show ?case using ih by (metis account_result_max)
qed








lemma call_failed_error:
  "call_failed outcome \<Longrightarrow> \<exists>ep sc msg. call_api endpoint outcome = Inl (VisionAPIError ep sc msg)"
  by (auto simp: call_failed_def call_api_def split: http_outcome.splits)

text \<open>
  Claim C2, as amended. With the GLM provider, when an attempt is due for a field and the
  external measurement call of that attempt fails (timeout, transport error or status
  other than 200), \<^verbatim>\<open>_validate_field_with_retry\<close> raises the \<^verbatim>\<open>VisionAPIError\<close> of
  \<^verbatim>\<open>_call_api\<close>: the field is left as it was before the attempt (the retry count does not
  advance, the status does not change, so it does not become passed), no further attempt
  is made, and the error leaves the loop of \<^verbatim>\<open>validate_all_fields\<close> at that field with the
  loop state, the retry pool and the remaining fields untouched.
\<close>

theorem call_failure_aborts:
  assumes prov: "coord_provider c = validate_coordinates config service"
    and due: "should_retry (retry_engine c) field"
    and call: "service w image_data field
                 (get_parameters_for_attempt (retry_engine c) (retry_count field + 1)) = (outcome, w')"
    and failed: "call_failed outcome"
    and page: "page_images (page_number field) = Some image_data"
    and st: "coordinator st = c"
  shows "\<exists>endpoint status_code message.
           call_api (api_endpoint config @ ''/v1/messages'') outcome
             = Inl (VisionAPIError endpoint status_code message) \<and>
           validate_field_with_retry c w image_data field
             = (Inl (VisionAPIError endpoint status_code message), field, w') \<and>
           validate_all_loop page_images cb batch n idx st w (field # rest)
             = (Some (VisionAPIError endpoint status_code message), st,
                validated_acc st @ field # rest, w') \<and>
           validate_all_fields c w (field # rest) page_images cb batch
             = (Inl (VisionAPIError endpoint status_code message), field # rest, c, w')"
proof -
  from call_failed_error[OF failed] obtain ep sc msg where
    e: "call_api (api_endpoint config @ ''/v1/messages'') outcome = Inl (VisionAPIError ep sc msg)"
    by blast
  have p: "coord_provider c w image_data field
             (get_parameters_for_attempt (retry_engine c) (retry_count field + 1))
           = (Inl (VisionAPIError ep sc msg), w')"
    using prov call e by (simp add: validate_coordinates_def)
  have one: "validate_field_with_retry c w image_data field
               = (Inl (VisionAPIError ep sc msg), field, w')"
    using due p by (simp add: Let_def)
  have loop: "validate_all_loop page_images cb batch k i s w (field # rest)
             = (Some (VisionAPIError ep sc msg), s, validated_acc s @ field # rest, w')"
    if "coordinator s = c" for k i s
    using one page that by simp
  have "validate_all_fields c w (field # rest) page_images cb batch
             = (Inl (VisionAPIError ep sc msg), field # rest, c, w')"
    unfolding validate_all_fields_def by (subst loop) simp_all
  with e one loop[OF st] show ?thesis by blast
qed

theorem call_failure_aborts_witness:
  "coord_provider flaky_coordinator = validate_coordinates (glm default_config) flaky_service
   \<and> should_retry (retry_engine flaky_coordinator)
         ((example_field ''a'' 1 example_box)\<lparr>retry_count := 2\<rparr>)
   \<and> flaky_service 2 ''page-1'' ((example_field ''a'' 1 example_box)\<lparr>retry_count := 2\<rparr>)
         (get_parameters_for_attempt (retry_engine flaky_coordinator) (2 + 1)) = (HttpTimeout, 3)
   \<and> call_failed (HttpTimeout :: measurement http_outcome)
   \<and> example_images 1 = Some ''page-1''
   \<and> (\<exists>endpoint status_code message.
         validate_field_with_retry flaky_coordinator 2 ''page-1''
             ((example_field ''a'' 1 example_box)\<lparr>retry_count := 2\<rparr>)
           = (Inl (VisionAPIError endpoint status_code message),
              (example_field ''a'' 1 example_box)\<lparr>retry_count := 2\<rparr>, 3) \<and>
         validate_all_fields flaky_coordinator 2
             [(example_field ''a'' 1 example_box)\<lparr>retry_count := 2\<rparr>] example_images None 10
           = (Inl (VisionAPIError endpoint status_code message),
              [(example_field ''a'' 1 example_box)\<lparr>retry_count := 2\<rparr>], flaky_coordinator, 3))"
proof -
  let ?f = "(example_field ''a'' 1 example_box)\<lparr>retry_count := 2\<rparr>"
  have prov: "coord_provider flaky_coordinator
                = validate_coordinates (glm default_config) flaky_service"
    by (simp add: flaky_coordinator_def ValidationCoordinator_init_def)
  have due: "should_retry (retry_engine flaky_coordinator) ?f"
    by (simp add: should_retry_def flaky_coordinator_def ValidationCoordinator_init_def
          default_config_def example_field_def)
  have call: "flaky_service 2 ''page-1'' ?f
        (get_parameters_for_attempt (retry_engine flaky_coordinator) (retry_count ?f + 1))
          = (HttpTimeout, 3)"
    by (simp add: flaky_service_def)
  have failed: "call_failed (HttpTimeout :: measurement http_outcome)"
    by (simp add: call_failed_def)
  have page: "example_images (page_number ?f) = Some ''page-1''"
    by (simp add: example_images_def example_field_def)
  have st: "coordinator \<lparr>validated_acc = [], passed_count = 0, skipped_count = 0,
               max_retries_used = 0, coordinator = flaky_coordinator\<rparr> = flaky_coordinator"
    by simp
  from call_failure_aborts[where page_images = example_images and rest = "[]" and cb = None
         and batch = 10 and n = 1 and idx = 0, OF prov due call failed page st]
  have "\<exists>endpoint status_code message.
         validate_field_with_retry flaky_coordinator 2 ''page-1'' ?f
           = (Inl (VisionAPIError endpoint status_code message), ?f, 3) \<and>
         validate_all_fields flaky_coordinator 2 [?f] example_images None 10
           = (Inl (VisionAPIError endpoint status_code message), [?f], flaky_coordinator, 3)"
    by blast
  moreover have "example_images 1 = Some ''page-1''"
    by (simp add: example_images_def)
  moreover have "flaky_service 2 ''page-1'' ?f
        (get_parameters_for_attempt (retry_engine flaky_coordinator) (2 + 1)) = (HttpTimeout, 3)"
    by (simp add: flaky_service_def)
  ultimately show ?thesis using prov due failed by blast
qed

text \<open>
  The claim as stated fails: the third call for a field times out. The coordinator raises
  instead of counting a failed attempt; the field is left with retry count 2 and status
  pending, and nothing reaches the retry pool.
\<close>

theorem call_failure_counterexample:
  "validate_all_fields flaky_coordinator 0 [example_field ''a'' 1 example_box] example_images None 10
     = (Inl (VisionAPIError ''https://api.z.ai/api/anthropic/v1/messages'' 408 ''Request timed out''),
        [(example_field ''a'' 1 example_box)
           \<lparr>retry_count := 2,
            validation_evidence :=
              Some \<lparr>ev_attempt = 2, ev_measured = example_box\<lparr>coord_x := 103\<rparr>,
                    ev_difference = Fin 3\<rparr>\<rparr>],
        flaky_coordinator, 3)"
  by (simp add: validate_all_fields_def flaky_coordinator_def ValidationCoordinator_init_def
       default_config_def default_retry_parameters_def example_field_def example_box_def
       example_images_def flaky_service_def validate_coordinates_def call_api_def
       should_retry_def get_parameters_for_attempt_def Let_def)

text \<open>
  Claim C6 (the code departs from it). With a configured tolerance of 1.0 and a service
  that measures the box 0.8 units off on every attempt, the tolerance checker built from
  the configuration accepts the measurement, but the provider compares with the constant
  0.5: the field uses all seven attempts and ends skipped.
\<close>

theorem configured_tolerance_ignored:
  "tolerance_checker lenient_coordinator = 1
   \<and> check (tolerance_checker lenient_coordinator) example_box (example_box\<lparr>coord_x := 100.8\<rparr>)
       = (True, 0.8)
   \<and> validate_field_with_retry lenient_coordinator () ''page-1'' (example_field ''a'' 1 example_box)
       = (Inr \<lparr>fvr_field =
                 (example_field ''a'' 1 example_box)
                   \<lparr>retry_count := 7,
                    validation_evidence :=
                      Some \<lparr>ev_attempt = 7, ev_measured = example_box\<lparr>coord_x := 100.8\<rparr>,
                            ev_difference = Fin 0.8\<rparr>,
                    validation_status := SKIPPED\<rparr>,
               fvr_passed = False\<rparr>,
          (example_field ''a'' 1 example_box)
            \<lparr>retry_count := 7,
             validation_evidence :=
               Some \<lparr>ev_attempt = 7, ev_measured = example_box\<lparr>coord_x := 100.8\<rparr>,
                     ev_difference = Fin 0.8\<rparr>,
             validation_status := SKIPPED\<rparr>,
          ())"
  by (simp add: lenient_coordinator_def lenient_config_def ValidationCoordinator_init_def
       default_config_def default_retry_parameters_def example_field_def example_box_def
       near_service_def validate_coordinates_def call_api_def check_def
       should_retry_def get_parameters_for_attempt_def Let_def)


subsection \<open>The validation phase\<close>

lemma filter_status_unknown:
  "fs \<noteq> [] \<Longrightarrow> ValidationStatus_member name = Inl e \<Longrightarrow> filter_status (name # names) fs = Inl e"
  by (cases fs) auto

lemma vaf_length:
  "validate_all_fields c w fl imgs cb batch = (Inr r, heap, c', w') \<Longrightarrow> length heap = length fl"
proof -
  assume a: "validate_all_fields c w fl imgs cb batch = (Inr r, heap, c', w')"
  obtain v s where r: "r = (v, s)" by (cases r) auto
  let ?st0 = "\<lparr>validated_acc = [], passed_count = 0, skipped_count = 0, max_retries_used = 0,
              coordinator = c\<rparr>"
  obtain eo st h w1 where l:
    "validate_all_loop imgs cb batch (int (length fl)) 0 ?st0 w fl = (eo, st, h, w1)"
    by (cases "validate_all_loop imgs cb batch (int (length fl)) 0 ?st0 w fl") auto
  from a l have eo: "eo = None" and h: "heap = h"
    by (cases eo; simp add: validate_all_fields_def Let_def)+
  from loop_inv[OF l[unfolded eo]] obtain new where
    "validated_acc st = new" "map untouched new = map untouched fl" "h = validated_acc st"
    by auto
  then show ?thesis using h by (metis length_map)
qed

lemma phase_validation_raises:
  assumes "detected_fields (sm_state sm) \<noteq> []"
  shows "fst (phase_validation env config sm w) \<noteq> None"
proof -
  obtain sm1 w1 where s: "start_phase (env_clock env) sm VALIDATION
      (int (length (detected_fields (sm_state sm)))) w = (sm1, w1)"
    by (cases "start_phase (env_clock env) sm VALIDATION
      (int (length (detected_fields (sm_state sm)))) w") auto
  have d: "detected_fields (sm_state sm1) = detected_fields (sm_state sm)"
    using s by (auto simp: start_phase_def split: option.splits prod.splits)
  let ?w2 = "report_progress env VALIDATION 0 w1"
  obtain ro w3 where r: "env_render env ?w2 (document_path (sm_state sm1)) = (ro, w3)"
    by (cases "env_render env ?w2 (document_path (sm_state sm1))") auto
  show ?thesis
  proof (cases ro)
    case (Inl e)
    with s r show ?thesis by (simp add: phase_validation_def Let_def)
  next
    case (Inr images)
    let ?c = "ValidationCoordinator_init (validate_coordinates (glm config) (env_service env)) config"
    obtain outcome heap c' w4 where v:
      "validate_all_fields ?c w3 (detected_fields (sm_state sm1)) (page_image_dict images) None 10
         = (outcome, heap, c', w4)"
      by (cases "validate_all_fields ?c w3 (detected_fields (sm_state sm1))
                   (page_image_dict images) None 10") auto
    show ?thesis
    proof (cases outcome)
      case (Inl e)
      with s r Inr v show ?thesis by (simp add: phase_validation_def Let_def)
    next
      case (Inr summary)
      from vaf_length[OF v[unfolded Inr]] d assms have "heap \<noteq> []" by auto
      then have "filter_status [''VALIDATED''] heap
                   = Inl (AttributeError ''ValidationStatus'' ''VALIDATED'')"
        by (intro filter_status_unknown) (simp_all add: ValidationStatus_member_def)
      with s r \<open>ro = Inr images\<close> v Inr show ?thesis
        by (simp add: phase_validation_def Let_def)
    qed
  qed
qed

text \<open>
  Claim C3 (the code departs from it). One detected field exhausts all seven attempts.
  The coordinator completes and leaves the field skipped, but \<^verbatim>\<open>_phase_validation\<close> then
  raises \<^verbatim>\<open>AttributeError\<close>: it selects the validated fields by the member
  \<^verbatim>\<open>ValidationStatus.VALIDATED\<close>, which the enumeration does not have. The phase does not
  complete and the retry pool of the workflow state stays empty.
\<close>

theorem phase_validation_attribute_error:
  "fst (phase_validation example_env default_config
          (example_manager [example_field ''a'' 1 example_box]) ())
     = Some (AttributeError ''ValidationStatus'' ''VALIDATED'')
   \<and> map (\<lambda>f. (field_id f, validation_status f, retry_count f))
         (detected_fields (sm_state (fst (snd (phase_validation example_env default_config
            (example_manager [example_field ''a'' 1 example_box]) ())))))
       = [(''a'', SKIPPED, 7)]
   \<and> retry_pool (sm_state (fst (snd (phase_validation example_env default_config
            (example_manager [example_field ''a'' 1 example_box]) ())))) = []"
  by (simp add: phase_validation_def example_env_def example_manager_def example_state_def
       fixed_clock_def off_service_def start_phase_def report_progress_def page_image_dict_def
       validate_all_fields_def ValidationCoordinator_init_def
       default_config_def default_retry_parameters_def example_field_def example_box_def
       validate_coordinates_def call_api_def ValidationStatus_member_def
       should_retry_def get_parameters_for_attempt_def account_result_def emit_progress_def
       add_to_retry_pool_def get_retry_pool_count_def Let_def)



subsection \<open>Checkpoints\<close>

lemma serialize_field_raises:
  "serialize_field f = Inl (AttributeError ''DetectedField'' ''tab_index'')"
  by (simp add: serialize_field_def dict_literal_def)

lemma serialize_field_list_raises:
  "fs \<noteq> [] \<Longrightarrow> serialize_field_list fs = Inl (AttributeError ''DetectedField'' ''tab_index'')"
  by (cases fs) (simp_all add: serialize_field_list_def serialize_field_raises)

lemma serialize_field_list_empty: "serialize_field_list [] = Inr (JArr [])"
  by (simp add: serialize_field_list_def)

lemma serialize_state_raises:
  assumes "detected_fields s \<noteq> [] \<or> validated_fields s \<noteq> [] \<or> retry_pool s \<noteq> []"
  shows "serialize_state s = Inl (AttributeError ''DetectedField'' ''tab_index'')"
proof (cases "detected_fields s = []")
  case False
  then show ?thesis
    by (simp add: serialize_state_def dict_literal_def serialize_field_list_raises)
next
  case d: True
  show ?thesis
  proof (cases "validated_fields s = []")
    case False
    then show ?thesis
      by (simp add: serialize_state_def dict_literal_def serialize_field_list_raises
            serialize_field_list_empty d)
  next
    case True
    with assms d have "retry_pool s \<noteq> []" by simp
    then show ?thesis
      by (simp add: serialize_state_def dict_literal_def serialize_field_list_raises
            serialize_field_list_empty d True)
  qed
qed

lemma save_checkpoint_raises:
  assumes "detected_fields (sm_state sm) \<noteq> [] \<or> validated_fields (sm_state sm) \<noteq> []
           \<or> retry_pool (sm_state sm) \<noteq> []"
    and "ckpt_mkdir_ok folder"
  shows "save_checkpoint folder sm =
           (Inl (CheckpointError ''save'' (workflow_id (sm_state sm))
                   (AttributeError ''DetectedField'' ''tab_index'')), folder)"
  using assms(2) serialize_state_raises[OF assms(1)]
  by (simp add: save_checkpoint_def Let_def)

lemma bind_err_Inl_cases:
  "(\<And>v. \<exists>e. f v = Inl e) \<Longrightarrow> \<exists>e. bind_err m f = Inl e"
  by (cases m) (auto simp: bind_err_def)

lemma deserialize_field_raises: "\<exists>e. deserialize_field data = Inl e"
  unfolding deserialize_field_def
  by (intro bind_err_Inl_cases) blast

text \<open>
  What does hold: a state whose three field lists are empty is written and read back
  unchanged.
\<close>

lemma map_err_map:
  "(\<And>x. x \<in> set xs \<Longrightarrow> f (g x) = Inr x) \<Longrightarrow> map_err f (map g xs) = Inr xs"
  by (induction xs) auto

lemma WorkflowPhase_of_value: "WorkflowPhase_of (JStr (WorkflowPhase_value ph)) = Inr ph"
  by (cases ph) (simp_all add: WorkflowPhase_of_def)

lemma optional_datetime_roundtrip:
  assumes "map_of items k = Some (case t of Some d \<Rightarrow> JStr (isoformat d) | None \<Rightarrow> JNull)"
    and "\<And>d. t = Some d \<Longrightarrow> iso_ok (isoformat d) \<and> isoformat d \<noteq> []"
  shows "optional_datetime iso_ok (JObj items) k = Inr t"
proof (cases t)
  case None
  with assms(1) show ?thesis
    by (simp add: optional_datetime_def dict_get_def bind_err_def)
next
  case (Some d)
  with assms show ?thesis
    by (cases d) (simp add: optional_datetime_def dict_get_def subscript_def bind_err_def
          fromisoformat_def)
qed

lemma as_opt_str_json: "as_opt_str (opt_str_json v) = Inr v"
  by (cases v) (simp_all add: as_opt_str_def opt_str_json_def)

lemma phase_progress_roundtrip:
  assumes "\<And>d. pp_started_at p = Some d \<Longrightarrow> iso_ok (isoformat d) \<and> isoformat d \<noteq> []"
    and "\<And>d. pp_completed_at p = Some d \<Longrightarrow> iso_ok (isoformat d) \<and> isoformat d \<noteq> []"
  shows "deserialize_phase_progress iso_ok (serialize_phase_progress p) = Inr p"
proof -
  let ?items = "[(''phase'', JStr (WorkflowPhase_value (pp_phase p))),
           (''startedAt'', (case pp_started_at p of
                              Some t \<Rightarrow> JStr (isoformat t) | None \<Rightarrow> JNull)),
           (''completedAt'', (case pp_completed_at p of
                                Some t \<Rightarrow> JStr (isoformat t) | None \<Rightarrow> JNull)),
           (''progressPercent'', JFloat (pp_progress_percent p)),
           (''itemsTotal'', JInt (pp_items_total p)),
           (''itemsCompleted'', JInt (pp_items_completed p)),
           (''errorMessage'', opt_str_json (pp_error_message p))]"
  have s: "optional_datetime iso_ok (JObj ?items) ''startedAt'' = Inr (pp_started_at p)"
    by (rule optional_datetime_roundtrip) (simp_all add: assms(1))
  have c: "optional_datetime iso_ok (JObj ?items) ''completedAt'' = Inr (pp_completed_at p)"
    by (rule optional_datetime_roundtrip) (simp_all add: assms(2))
  show ?thesis
    unfolding deserialize_phase_progress_def serialize_phase_progress_def s c
    by (simp add: bind_err_def subscript_def dict_get_def WorkflowPhase_of_value
          as_float_def as_int_def as_opt_str_json)
qed

lemma page_info_roundtrip: "deserialize_page_info (serialize_page_info pg) = Inr pg"
  by (simp add: deserialize_page_info_def serialize_page_info_def bind_err_def subscript_def
        as_int_def as_float_def)

lemma output_paths_roundtrip:
  "deserialize_output_paths (JObj (map (\<lambda>kv. (fst kv, JStr (snd kv))) ops)) = Inr ops"
proof -
  have "map_err (\<lambda>kv. bind_err (as_str (snd kv)) (\<lambda>t. Inr (fst kv, t)))
          (map (\<lambda>kv. (fst kv, JStr (snd kv))) ops) = Inr ops"
    by (rule map_err_map) (simp add: as_str_def bind_err_def)
  then show ?thesis by (simp add: deserialize_output_paths_def)
qed

lemma state_roundtrip_without_fields:
  assumes nofields: "detected_fields s = []" "validated_fields s = []" "retry_pool s = []"
    and ts: "timestamps_ok iso_ok s"
  shows "\<exists>data. serialize_state s = Inr data \<and> deserialize_state iso_ok data = Inr s"
proof -
  let ?items = "[(''workflowId'', JStr (workflow_id s)),
        (''documentPath'', JStr (document_path s)),
        (''documentHash'', JStr (document_hash s)),
        (''currentPhase'', JStr (WorkflowPhase_value (current_phase s))),
        (''phaseHistory'', JArr (map serialize_phase_progress (phase_history s))),
        (''pages'', JArr (map serialize_page_info (pages s))),
        (''detectedFields'', JArr []),
        (''validatedFields'', JArr []),
        (''retryPool'', JArr []),
        (''outputPaths'', JObj (map (\<lambda>kv. (fst kv, JStr (snd kv))) (output_paths s))),
        (''startedAt'', JStr (isoformat (started_at s))),
        (''updatedAt'', JStr (isoformat (updated_at s))),
        (''error'', opt_str_json (ws_error s))]"
  have ser: "serialize_state s = Inr (JObj ?items)"
    by (simp add: serialize_state_def dict_literal_def serialize_field_list_def nofields)
  have h: "deserialize_list (deserialize_phase_progress iso_ok) (JObj ?items) ''phaseHistory''
             = Inr (phase_history s)"
  proof -
    have "map_err (deserialize_phase_progress iso_ok)
            (map serialize_phase_progress (phase_history s)) = Inr (phase_history s)"
    proof (rule map_err_map)
      fix p assume "p \<in> set (phase_history s)"
      with ts have "(case pp_started_at p of
                        Some d \<Rightarrow> iso_ok (isoformat d) \<and> isoformat d \<noteq> [] | None \<Rightarrow> True) \<and>
                     (case pp_completed_at p of
                        Some d \<Rightarrow> iso_ok (isoformat d) \<and> isoformat d \<noteq> [] | None \<Rightarrow> True)"
        by (auto simp: timestamps_ok_def list_all_iff)
      then show "deserialize_phase_progress iso_ok (serialize_phase_progress p) = Inr p"
        by (intro phase_progress_roundtrip) auto
    qed
    then show ?thesis
      by (simp add: deserialize_list_def dict_get_def bind_err_def)
  qed
  have pg: "deserialize_list deserialize_page_info (JObj ?items) ''pages'' = Inr (pages s)"
  proof -
    have "map_err deserialize_page_info (map serialize_page_info (pages s)) = Inr (pages s)"
      by (rule map_err_map) (rule page_info_roundtrip)
    then show ?thesis
      by (simp add: deserialize_list_def dict_get_def bind_err_def)
  qed
  have fl: "deserialize_list deserialize_field (JObj ?items) ''detectedFields'' = Inr []"
      "deserialize_list deserialize_field (JObj ?items) ''validatedFields'' = Inr []"
      "deserialize_list deserialize_field (JObj ?items) ''retryPool'' = Inr []"
    by (simp_all add: deserialize_list_def dict_get_def bind_err_def)
  have op: "dict_get (JObj ?items) ''outputPaths'' (JObj [])
              = Inr (JObj (map (\<lambda>kv. (fst kv, JStr (snd kv))) (output_paths s)))"
    by (simp add: dict_get_def)
  have st: "fromisoformat iso_ok (JStr (isoformat (started_at s))) = Inr (started_at s)"
      "fromisoformat iso_ok (JStr (isoformat (updated_at s))) = Inr (updated_at s)"
    using ts by (simp_all add: fromisoformat_def timestamps_ok_def)
  have "deserialize_state iso_ok (JObj ?items) = Inr s"
    unfolding deserialize_state_def h pg fl op
    by (simp add: bind_err_def subscript_def dict_get_def as_str_def WorkflowPhase_of_value
          output_paths_roundtrip st as_opt_str_json nofields)
  with ser show ?thesis by blast
qed

lemma checkpoint_roundtrip_without_fields:
  assumes "detected_fields s = []" "validated_fields s = []" "retry_pool s = []"
    and "timestamps_ok iso_ok s"
    and "ckpt_mkdir_ok folder" "ckpt_write_ok folder"
  shows "load_checkpoint iso_ok
           (snd (save_checkpoint folder \<lparr>sm_state = s, current_progress = cp\<rparr>)) (workflow_id s)
         = Inr (Some s)"
proof -
  from state_roundtrip_without_fields[OF assms(1-4)] obtain data where
    "serialize_state s = Inr data" "deserialize_state iso_ok data = Inr s" by blast
  with assms(5,6) show ?thesis
    by (simp add: save_checkpoint_def load_checkpoint_def Let_def)
qed


text \<open>
  Claim C1 (the code departs from it). Saving a workflow state that holds one detected
  field raises \<^verbatim>\<open>CheckpointError\<close> (from the \<^verbatim>\<open>AttributeError\<close> for \<^verbatim>\<open>field.tab_index\<close>)
  and writes nothing, so loading under the same identifier finds no checkpoint instead of
  an equal state.
\<close>

theorem checkpoint_save_fails_with_field:
  "save_checkpoint example_folder (example_manager [example_field ''a'' 1 example_box])
     = (Inl (CheckpointError ''save'' ''wf_0123456789ab''
               (AttributeError ''DetectedField'' ''tab_index'')), example_folder)
   \<and> load_checkpoint lenient_iso example_folder ''wf_0123456789ab'' = Inr None"
  by (simp add: save_checkpoint_def serialize_state_def serialize_field_list_def
        serialize_field_def dict_literal_def example_manager_def example_state_def
        example_folder_def load_checkpoint_def Let_def)


subsection \<open>Resume\<close>

lemma delete_checkpoint_gone:
  "delete_checkpoint folder wid = (Inr deleted, folder') \<Longrightarrow> ckpt_files folder' wid = None"
  by (auto simp: delete_checkpoint_def split: option.splits disk_file.splits if_splits)

lemma resume_missing:
  "ckpt_files folder wid = None \<Longrightarrow>
     resume now iso_ok ops folder smo w wid
       = (Inl (WorkflowStateError_new [''resume'', ''Checkpoint not found: '' @ wid]), folder, smo, w)"
  by (simp add: resume_def load_checkpoint_def)

lemma saved_folder_eval:
  "\<exists>data. ckpt_files saved_folder ''wf_0123456789ab'' = Some (Json data)"
  by (simp add: saved_folder_def save_checkpoint_def serialize_state_def serialize_field_list_def
        dict_literal_def finished_state_def example_state_def example_folder_def Let_def)

lemma saved_folder_unlink: "ckpt_unlink_ok saved_folder"
  by (simp add: saved_folder_def save_checkpoint_def serialize_state_def serialize_field_list_def
        dict_literal_def finished_state_def example_state_def example_folder_def Let_def)

lemma load_saved:
  "load_checkpoint lenient_iso saved_folder ''wf_0123456789ab'' = Inr (Some finished_state)"
  by (simp add: saved_folder_def save_checkpoint_def serialize_state_def serialize_field_list_def
        dict_literal_def finished_state_def example_state_def example_folder_def Let_def
        load_checkpoint_def deserialize_state_def bind_err_def subscript_def dict_get_def
        as_str_def as_opt_str_def WorkflowPhase_of_def deserialize_list_def
        deserialize_output_paths_def fromisoformat_def opt_str_json_def lenient_iso_def)

lemma first_resume_eval:
  "first_resume =
     (Inr (Complete
            \<lparr>res_workflow_id = ''wf_0123456789ab'', res_document_hash = ''d41d8cd9'',
             res_output_paths = [(''golden_map'', ''output/form.json'')],
             res_total_pages = 0, res_total_fields = 0, res_validated_fields = 0,
             res_retry_pool_size = 0, res_accuracy = 0, res_elapsed_time = 0\<rparr>),
      saved_folder\<lparr>ckpt_files := (ckpt_files saved_folder)(''wf_0123456789ab'' := None)\<rparr>,
      Some \<lparr>sm_state = finished_state, current_progress = None\<rparr>, ())"
proof -
  from saved_folder_eval obtain data where
    f: "ckpt_files saved_folder ''wf_0123456789ab'' = Some (Json data)" by blast
  have d: "delete_checkpoint saved_folder ''wf_0123456789ab''
             = (Inr True,
                saved_folder\<lparr>ckpt_files := (ckpt_files saved_folder)(''wf_0123456789ab'' := None)\<rparr>)"
    using f saved_folder_unlink by (simp add: delete_checkpoint_def)
  have p: "resume_point finished_state = COMPLETE"
    by (simp add: resume_point_def finished_state_def)
  show ?thesis
    by (simp add: first_resume_def resume_def load_saved StateManager_init_def fixed_clock_def
          p d remaining_phases_def build_result_def idle_ops_def Let_def)
       (simp add: finished_state_def example_state_def)
qed

lemma failed_folder_eval:
  "\<exists>data. ckpt_files failed_folder ''wf_0123456789ab'' = Some (Json data)"
  by (simp add: failed_folder_def save_checkpoint_def serialize_state_def serialize_field_list_def
        dict_literal_def failed_state_def example_state_def example_folder_def Let_def)

lemma load_failed:
  "load_checkpoint lenient_iso failed_folder ''wf_0123456789ab'' = Inr (Some failed_state)"
  by (simp add: failed_folder_def save_checkpoint_def serialize_state_def serialize_field_list_def
        dict_literal_def failed_state_def example_state_def example_folder_def Let_def
        load_checkpoint_def deserialize_state_def bind_err_def subscript_def dict_get_def
        as_str_def as_opt_str_def WorkflowPhase_of_def deserialize_list_def
        deserialize_output_paths_def fromisoformat_def opt_str_json_def lenient_iso_def)

lemma resume_failed:
  "resume still_clock lenient_iso rerun_ops failed_folder smo n ''wf_0123456789ab''
     = (Inr rerun_result, failed_folder,
        Some \<lparr>sm_state = finished_state\<lparr>workflow_id := ''wf_abcdef012345''\<rparr>,
              current_progress = None\<rparr>, Suc n)"
proof -
  have p: "resume_point failed_state = INIT"
    by (simp add: resume_point_def failed_state_def example_state_def)
  show ?thesis
    by (simp add: resume_def load_failed StateManager_init_def still_clock_def p rerun_ops_def
          Let_def)
qed

text \<open>
  Claim C4, as amended. If \<^verbatim>\<open>resume(id)\<close> completes successfully from a checkpoint whose
  restart phase is neither \<^verbatim>\<open>init\<close> nor \<^verbatim>\<open>loading\<close> (the paths of \<^verbatim>\<open>resume\<close> that end by
  deleting the checkpoint), the checkpoint is deleted, and a second \<^verbatim>\<open>resume(id)\<close> runs no
  phase and leaves the checkpoint directory, the state manager and the world as they are;
  it does not return a result but raises (no checkpoint is found).
\<close>

theorem resume_twice:
  assumes first: "resume now iso_ok ops folder smo w wid = (Inr r, folder', smo', w')"
    and loaded: "load_checkpoint iso_ok folder wid = Inr (Some state)"
    and point: "resume_point state \<noteq> INIT \<and> resume_point state \<noteq> LOADING"
  shows "ckpt_files folder' wid = None \<and>
         (\<exists>e. resume now iso_ok ops folder' smo' w' wid = (Inl e, folder', smo', w'))"
proof -
  obtain sm0 w1 where i: "StateManager_init now (workflow_id state) (document_path state) w = (sm0, w1)"
    by (cases "StateManager_init now (workflow_id state) (document_path state) w") auto
  obtain ro sm1 w2 where p:
    "remaining_phases ops (resume_point state) (sm0\<lparr>sm_state := state\<rparr>) w1 = (ro, sm1, w2)"
    by (cases "remaining_phases ops (resume_point state) (sm0\<lparr>sm_state := state\<rparr>) w1") auto
  from first loaded point i p obtain paths where ro: "ro = Inr paths"
    by (cases ro) (auto simp: resume_def Let_def)
  obtain dr folder1 where d: "delete_checkpoint folder wid = (dr, folder1)"
    by (cases "delete_checkpoint folder wid") auto
  from first loaded point i p ro d obtain deleted where dr: "dr = Inr deleted"
    by (cases dr) (auto simp: resume_def Let_def)
  from first loaded point i p ro d dr have "folder' = folder1"
    by (auto simp: resume_def Let_def split: prod.splits)
  with delete_checkpoint_gone[OF d[unfolded dr]] have gone: "ckpt_files folder' wid = None"
    by simp
  have "resume now iso_ok ops folder' smo' w' wid
          = (Inl (WorkflowStateError_new [''resume'', ''Checkpoint not found: '' @ wid]),
             folder', smo', w')"
    by (rule resume_missing[OF gone])
  with gone show ?thesis by simp
qed

theorem resume_twice_witness:
  "\<exists>r folder' smo' w'.
     resume fixed_clock lenient_iso idle_ops saved_folder None () ''wf_0123456789ab''
       = (Inr r, folder', smo', w')
     \<and> load_checkpoint lenient_iso saved_folder ''wf_0123456789ab'' = Inr (Some finished_state)
     \<and> resume_point finished_state \<noteq> INIT \<and> resume_point finished_state \<noteq> LOADING
     \<and> ckpt_files folder' ''wf_0123456789ab'' = None
     \<and> (\<exists>e. resume fixed_clock lenient_iso idle_ops folder' smo' w' ''wf_0123456789ab''
              = (Inl e, folder', smo', w'))"
proof -
  obtain r folder' smo' w' where first:
    "resume fixed_clock lenient_iso idle_ops saved_folder None () ''wf_0123456789ab''
       = (Inr r, folder', smo', w')"
    using first_resume_eval unfolding first_resume_def by blast
  have point: "resume_point finished_state \<noteq> INIT \<and> resume_point finished_state \<noteq> LOADING"
    by (simp add: resume_point_def finished_state_def)
  from resume_twice[OF first load_saved point] first load_saved point show ?thesis
    by blast
qed

text \<open>
  The claim as stated fails in two ways. The first \<^verbatim>\<open>resume\<close> of a finished workflow
  succeeds and deletes the checkpoint, and the second one raises. And from the checkpoint
  of a workflow that failed before its first phase (restart phase \<^verbatim>\<open>init\<close>), \<^verbatim>\<open>resume\<close>
  returns what \<^verbatim>\<open>run\<close> returns without deleting the checkpoint: the first \<^verbatim>\<open>resume\<close>
  succeeds after one run of the pipeline and leaves the checkpoint in place, and the second
  one finds it and runs the pipeline once more.
\<close>

theorem resume_twice_counterexample:
  "\<not> isl (fst first_resume)
   \<and> fst (resume fixed_clock lenient_iso idle_ops (fst (snd first_resume))
            (fst (snd (snd first_resume))) (snd (snd (snd first_resume))) ''wf_0123456789ab'')
       = Inl (TypeError ''WorkflowStateError.__init__() takes 3 positional arguments'')
   \<and> resume_point failed_state = INIT
   \<and> resume still_clock lenient_iso rerun_ops failed_folder None 0 ''wf_0123456789ab''
       = (Inr rerun_result, failed_folder,
          Some \<lparr>sm_state = finished_state\<lparr>workflow_id := ''wf_abcdef012345''\<rparr>,
                current_progress = None\<rparr>, 1)
   \<and> ckpt_files failed_folder ''wf_0123456789ab'' \<noteq> None
   \<and> resume still_clock lenient_iso rerun_ops failed_folder
         (Some \<lparr>sm_state = finished_state\<lparr>workflow_id := ''wf_abcdef012345''\<rparr>,
                current_progress = None\<rparr>) 1 ''wf_0123456789ab''
       = (Inr rerun_result, failed_folder,
          Some \<lparr>sm_state = finished_state\<lparr>workflow_id := ''wf_abcdef012345''\<rparr>,
                current_progress = None\<rparr>, 2)"
proof -
  have a: "\<not> isl (fst first_resume)"
    by (simp add: first_resume_eval)
  have b: "fst (resume fixed_clock lenient_iso idle_ops (fst (snd first_resume))
            (fst (snd (snd first_resume))) (snd (snd (snd first_resume))) ''wf_0123456789ab'')
       = Inl (TypeError ''WorkflowStateError.__init__() takes 3 positional arguments'')"
    by (simp add: first_resume_eval resume_def load_checkpoint_def WorkflowStateError_new_def)
  have c: "resume_point failed_state = INIT"
    by (simp add: resume_point_def failed_state_def example_state_def)
  have d: "ckpt_files failed_folder ''wf_0123456789ab'' \<noteq> None"
    using failed_folder_eval by auto
  have e: "Suc 0 = 1" "Suc 1 = 2" by simp_all
  from a b c d resume_failed[of None 0]
    resume_failed[of "Some \<lparr>sm_state = finished_state\<lparr>workflow_id := ''wf_abcdef012345''\<rparr>,
                current_progress = None\<rparr>" 1]
  show ?thesis unfolding e by simp
qed

subsection \<open>Cache lookup\<close>

text \<open>
  When the index does not know the hash, or knows it but the store has no file for it, or
  a file that cannot be opened or is not JSON, \<^verbatim>\<open>_check_cache\<close> returns \<^verbatim>\<open>None\<close> (a miss)
  and raises nothing.
\<close>

lemma cache_lookup_miss:
  assumes "env_md5 env w pdf_path = (Inr h, w1)"
    and "get_entry idx h = None \<or> cache_store folder h = None \<or>
         cache_store folder h = Some Unreadable \<or> cache_store folder h = Some NotJson"
  shows "check_cache env config idx folder w pdf_path
           = (Inr None, if cache_enabled (cache config) then w1 else w)"
  using assms
  by (auto simp: check_cache_def retrieve_golden_map_def Let_def split: option.splits)

lemma cache_lookup_miss_example:
  "env_md5 example_env () ''form.pdf'' = (Inr ''d41d8cd9'', ())
   \<and> get_entry \<lparr>idx_entries = []\<rparr> ''d41d8cd9'' = None
   \<and> check_cache example_env default_config \<lparr>idx_entries = []\<rparr> empty_cache () ''form.pdf''
       = (Inr None, ())
   \<and> get_entry \<lparr>idx_entries = [(HStr ''d41d8cd9'', example_entry)]\<rparr> ''d41d8cd9''
       = Some example_entry
   \<and> cache_store empty_cache ''d41d8cd9'' = None
   \<and> check_cache example_env default_config
         \<lparr>idx_entries = [(HStr ''d41d8cd9'', example_entry)]\<rparr> empty_cache () ''form.pdf''
       = (Inr None, ())"
proof -
  have md5: "env_md5 example_env () ''form.pdf'' = (Inr ''d41d8cd9'', ())"
    by (simp add: example_env_def)
  have unknown: "get_entry \<lparr>idx_entries = []\<rparr> ''d41d8cd9'' = None"
    by (simp add: get_entry_def)
  have known: "get_entry \<lparr>idx_entries = [(HStr ''d41d8cd9'', example_entry)]\<rparr> ''d41d8cd9''
                 = Some example_entry"
    by (simp add: get_entry_def)
  have nofile: "cache_store empty_cache ''d41d8cd9'' = None"
    by (simp add: empty_cache_def)
  have en: "cache_enabled (cache default_config)"
    by (simp add: default_config_def)
  have a: "check_cache example_env default_config \<lparr>idx_entries = []\<rparr> empty_cache () ''form.pdf''
       = (Inr None, ())"
    using cache_lookup_miss[OF md5, of "\<lparr>idx_entries = []\<rparr>" empty_cache default_config] unknown en
    by simp
  have b: "check_cache example_env default_config
         \<lparr>idx_entries = [(HStr ''d41d8cd9'', example_entry)]\<rparr> empty_cache () ''form.pdf''
       = (Inr None, ())"
    using cache_lookup_miss[OF md5, of "\<lparr>idx_entries = [(HStr ''d41d8cd9'', example_entry)]\<rparr>"
            empty_cache default_config] nofile en
    by simp
  from md5 unknown known nofile a b show ?thesis by simp
qed

text \<open>
  Claim C8 (the code departs from it). The index knows the hash of the document, and the
  status of the file \<^verbatim>\<open><hash>.json\<close> in the store cannot be determined, so the store has no
  retrievable artifact. \<^verbatim>\<open>retrieve_golden_map\<close> tests \<^verbatim>\<open>cache_path.exists()\<close> before its
  \<^verbatim>\<open>try\<close>, and \<^verbatim>\<open>_check_cache\<close> has no handler: the lookup is not a miss, it raises
  \<^verbatim>\<open>OSError\<close>.
\<close>

theorem cache_lookup_raises:
  "cache_enabled (cache default_config)
   \<and> env_md5 example_env () ''form.pdf'' = (Inr ''d41d8cd9'', ())
   \<and> get_entry \<lparr>idx_entries = [(HStr ''d41d8cd9'', example_entry)]\<rparr> ''d41d8cd9''
       = Some example_entry
   \<and> cache_store locked_store ''d41d8cd9'' = Some Inaccessible
   \<and> retrieve_golden_map locked_store ''d41d8cd9'' = Inl (OSError ''stat'')
   \<and> check_cache example_env default_config
         \<lparr>idx_entries = [(HStr ''d41d8cd9'', example_entry)]\<rparr> locked_store () ''form.pdf''
       = (Inl (OSError ''stat''), ())"
  by (simp add: check_cache_def retrieve_golden_map_def get_entry_def locked_store_def
        empty_cache_def example_env_def default_config_def)

subsection \<open>Loading and rewriting the cache index\<close>












end
